theory Spec2Isabelle
  imports Complex_Main
begin

section \<open>User-profile synchronisation (server/src/index.ts)\<close>

text \<open>
  The file registers two lifecycle handlers for the users-permissions user model:
  \<open>afterCreate\<close> creates a linked profile document, \<open>beforeDelete\<close> removes it.
  The handlers receive an \<open>any\<close>-typed event, so the payload is modelled as a
  JavaScript value, and the document service they call is a collaborator that is not
  part of the repository: it is modelled from its description in the specification.
\<close>

subsection \<open>JavaScript values\<close>

text \<open>
  The part of the value space the handlers can observe. Numbers are the integers
  (identifiers and the generated 4-digit number); objects are association lists of
  their own properties.
\<close>

datatype jsval =
    Undefined
  | Null
  | Bool bool
  | Num int
  | Str string
  | Obj "(string \<times> jsval) list"

datatype error = TypeError

text \<open>Truthiness, as the operator \<open>||\<close> tests it.\<close>

fun truthy :: "jsval \<Rightarrow> bool" where
  "truthy Undefined = False"
| "truthy Null = False"
| "truthy (Bool b) = b"
| "truthy (Num n) = (n \<noteq> 0)"
| "truthy (Str s) = (s \<noteq> [])"
| "truthy (Obj fs) = True"

text \<open>\<open>a || b\<close>: the left operand when it is truthy, the right one otherwise.\<close>

definition js_or :: "jsval \<Rightarrow> jsval \<Rightarrow> jsval" where
  "js_or a b = (if truthy a then a else b)"

text \<open>
  \<open>v.k\<close> (also the destructuring \<open>const { k } = v\<close>): a TypeError on
  \<open>undefined\<close> and \<open>null\<close>, the property or \<open>undefined\<close> on an object, and
  \<open>undefined\<close> on a primitive (none of the names read by the handlers is a
  property of a primitive's prototype).
\<close>

fun get_property :: "jsval \<Rightarrow> string \<Rightarrow> error + jsval" where
  "get_property Undefined k = Inl TypeError"
| "get_property Null k = Inl TypeError"
| "get_property (Obj fs) k = Inr (case map_of fs k of None \<Rightarrow> Undefined | Some v \<Rightarrow> v)"
| "get_property (Bool b) k = Inr Undefined"
| "get_property (Num n) k = Inr Undefined"
| "get_property (Str s) k = Inr Undefined"

text \<open>\<open>v?.k\<close>: \<open>undefined\<close> instead of the TypeError.\<close>

fun opt_property :: "jsval \<Rightarrow> string \<Rightarrow> jsval" where
  "opt_property Undefined k = Undefined"
| "opt_property Null k = Undefined"
| "opt_property (Obj fs) k = (case map_of fs k of None \<Rightarrow> Undefined | Some v \<Rightarrow> v)"
| "opt_property (Bool b) k = Undefined"
| "opt_property (Num n) k = Undefined"
| "opt_property (Str s) k = Undefined"

text \<open>Decimal digits of a number, for the template literal.\<close>

definition digit_char :: "nat \<Rightarrow> char" where
  "digit_char d = ''0123456789'' ! (d mod 10)"

fun string_of_nat :: "nat \<Rightarrow> string" where
  "string_of_nat n =
     (if n < 10 then [digit_char n]
      else string_of_nat (n div 10) @ [digit_char (n mod 10)])"

declare string_of_nat.simps [simp del]

definition string_of_int :: "int \<Rightarrow> string" where
  "string_of_int i =
     (if i < 0 then CHR ''-'' # string_of_nat (nat (- i)) else string_of_nat (nat i))"

text \<open>The string a template literal \<open>`${v}`\<close> substitutes for a value.\<close>

fun to_string :: "jsval \<Rightarrow> string" where
  "to_string Undefined = ''undefined''"
| "to_string Null = ''null''"
| "to_string (Bool b) = (if b then ''true'' else ''false'')"
| "to_string (Num n) = string_of_int n"
| "to_string (Str s) = s"
| "to_string (Obj fs) = ''[object Object]''"

text \<open>\<open>xs[i]\<close> on an array of strings: \<open>undefined\<close> out of range.\<close>

definition js_index :: "string list \<Rightarrow> int \<Rightarrow> jsval" where
  "js_index xs i = (if 0 \<le> i \<and> i < int (length xs) then Str (xs ! nat i) else Undefined)"

subsection \<open>Double-precision numbers\<close>

text \<open>
  JavaScript numbers are IEEE 754 doubles, and \<open>generateUsername\<close> multiplies and
  adds them, so each operation rounds. The doubles that arise there are finite and not
  negative (\<open>Math.random()\<close> returns a double \<open>r\<close> with \<open>0 \<le> r < 1\<close>, and the
  constants are 1000, 9000 and the array lengths); overflow to infinity, NaN and
  negative numbers cannot occur and are not modelled. Such a double is
  \<open>mant * 2 ^ expo\<close> with \<open>mant < 2 ^ 53\<close> and \<open>- 1074 \<le> expo\<close>.
\<close>

record double =
  mant :: nat
  expo :: int

definition double_value :: "double \<Rightarrow> real" where
  "double_value d = real (mant d) * 2 powi expo d"

text \<open>The number of binary digits of a natural number.\<close>

fun bit_length :: "nat \<Rightarrow> nat" where
  "bit_length n = (if n = 0 then 0 else Suc (bit_length (n div 2)))"

declare bit_length.simps [simp del]

text \<open>
  Dropping the last \<open>k\<close> binary digits, rounding to nearest, ties to the even
  neighbour (the IEEE 754 default rounding, which JavaScript uses).
\<close>

definition round_shift :: "nat \<Rightarrow> nat \<Rightarrow> nat" where
  "round_shift N k =
     (let q = N div 2 ^ k; r = N mod 2 ^ k; half = 2 ^ (k - 1)
      in if half < r \<or> (r = half \<and> odd q) then q + 1 else q)"

text \<open>
  The double nearest to the exact value \<open>N * 2 ^ f\<close>: the value itself when it has at
  most 53 significant digits and no digit below \<open>2 ^ - 1074\<close>, and otherwise the value
  rounded to that precision.
\<close>

definition round_double :: "nat \<Rightarrow> int \<Rightarrow> double" where
  "round_double N f =
     (let k = max (int (bit_length N) - 53) (- 1074 - f)
      in if k \<le> 0 then \<lparr>mant = N, expo = f\<rparr>
         else let q = round_shift N (nat k)
              in if q = 2 ^ 53 then \<lparr>mant = 2 ^ 52, expo = f + k + 1\<rparr>
                 else \<lparr>mant = q, expo = f + k\<rparr>)"

text \<open>\<open>a * b\<close> and \<open>a + b\<close> on doubles: the exact result, rounded.\<close>

definition dmul :: "double \<Rightarrow> double \<Rightarrow> double" where
  "dmul a b = round_double (mant a * mant b) (expo a + expo b)"

definition dadd :: "double \<Rightarrow> double \<Rightarrow> double" where
  "dadd a b =
     (let f = min (expo a) (expo b)
      in round_double (mant a * 2 ^ nat (expo a - f) + mant b * 2 ^ nat (expo b - f)) f)"

text \<open>\<open>Math.floor\<close>, as the integer it returns.\<close>

definition dfloor :: "double \<Rightarrow> int" where
  "dfloor d =
     (if 0 \<le> expo d then int (mant d) * 2 ^ nat (expo d)
      else int (mant d div 2 ^ nat (- expo d)))"

text \<open>A number literal or an array length: an integer below \<open>2 ^ 53\<close>, which is exact.\<close>

definition double_of_nat :: "nat \<Rightarrow> double" where
  "double_of_nat n = \<lparr>mant = n, expo = 0\<rparr>"

text \<open>What \<open>Math.random()\<close> can return: a double \<open>r\<close> with \<open>0 \<le> r < 1\<close>.\<close>

definition unit_draw :: "double \<Rightarrow> bool" where
  "unit_draw d \<longleftrightarrow> mant d < 2 ^ 53 \<and> - 1074 \<le> expo d \<and> mant d < 2 ^ nat (- expo d)"

subsection \<open>generateUsername\<close>

text \<open>
  The three results of \<open>Math.random()\<close>, in the order the function draws them: the
  number first, then the adjective, then the noun.
\<close>

record random_draws =
  number_draw :: double
  adjective_draw :: double
  noun_draw :: double

definition adjectives :: "string list" where
  "adjectives = [''Swift'', ''Brave'', ''Clever'', ''Mighty'', ''Silent'', ''Witty'', ''Bold'', ''Eager'']"

definition nouns :: "string list" where
  "nouns = [''Tiger'', ''Eagle'', ''Shark'', ''Wolf'', ''Falcon'', ''Panda'', ''Dragon'', ''Hawk'']"

definition generateUsername :: "random_draws \<Rightarrow> string" where
  "generateUsername rnd =
     (let randomNumber =
            dfloor (dadd (double_of_nat 1000) (dmul (number_draw rnd) (double_of_nat 9000)));
          randomAdjective =
            js_index adjectives
              (dfloor (dmul (adjective_draw rnd) (double_of_nat (length adjectives))));
          randomNoun =
            js_index nouns (dfloor (dmul (noun_draw rnd) (double_of_nat (length nouns))))
      in to_string randomAdjective @ to_string randomNoun @ to_string (Num randomNumber))"

subsection \<open>The document store\<close>

text \<open>
  A profile document: its store-assigned document identifier and the three fields the
  handler writes. The fields hold whatever value the handler passes.
\<close>

record profile =
  documentId :: nat
  user :: jsval
  fullName :: jsval
  bio :: jsval

text \<open>
  The profile collection, in insertion order, and the next document identifier the
  store hands out.
\<close>

record store =
  docs :: "profile list"
  nextDocumentId :: nat

text \<open>
  Modelled from the spec: \<open>strapi.documents(...).findMany\<close> belongs to the host
  framework and is not in the repository. The specification gives it an equality
  predicate on the back-reference field and an ordered, possibly empty, result; an
  \<open>undefined\<close> filter value yields the empty result.
\<close>

definition findMany :: "store \<Rightarrow> jsval \<Rightarrow> profile list" where
  "findMany s v = (if v = Undefined then [] else filter (\<lambda>p. user p = v) (docs s))"

text \<open>
  Modelled from the spec: \<open>strapi.documents(...).create\<close> belongs to the host
  framework. It inserts one new document, with a store-assigned identifier.
\<close>

definition create :: "store \<Rightarrow> jsval \<Rightarrow> jsval \<Rightarrow> jsval \<Rightarrow> store" where
  "create s u n b =
     s\<lparr>docs := docs s @ [\<lparr>documentId = nextDocumentId s, user = u, fullName = n, bio = b\<rparr>],
       nextDocumentId := Suc (nextDocumentId s)\<rparr>"

text \<open>
  Modelled from the spec: \<open>strapi.documents(...).delete\<close> belongs to the host
  framework. It removes the document with the given identifier.
\<close>

definition delete_document :: "store \<Rightarrow> nat \<Rightarrow> store" where
  "delete_document s d = s\<lparr>docs := filter (\<lambda>p. documentId p \<noteq> d) (docs s)\<rparr>"

text \<open>
  Document identifiers are keys of the store: pairwise distinct, and all handed out
  already.
\<close>

definition wf_store :: "store \<Rightarrow> bool" where
  "wf_store s \<longleftrightarrow>
     distinct (map documentId (docs s)) \<and>
     list_all (\<lambda>p. documentId p < nextDocumentId s) (docs s)"

subsection \<open>The helpers of index.ts\<close>

definition checkIfUserProfileExists :: "store \<Rightarrow> jsval \<Rightarrow> profile list" where
  "checkIfUserProfileExists s userId = findMany s userId"

definition createUserProfile :: "store \<Rightarrow> jsval \<Rightarrow> jsval \<Rightarrow> jsval \<Rightarrow> store" where
  "createUserProfile s userId fullName' bio' =
     (let userProfile = checkIfUserProfileExists s userId
      in if length userProfile > 0 then s
         else create s userId fullName' bio')"

definition deleteUserProfile :: "store \<Rightarrow> jsval \<Rightarrow> store" where
  "deleteUserProfile s userId =
     (let userProfile = checkIfUserProfileExists s userId
      in if length userProfile > 0 then delete_document s (documentId (userProfile ! 0))
         else s)"

subsection \<open>The lifecycle handlers\<close>

text \<open>
  A handler returns the error it threw, if any, and the store it leaves behind.
  \<open>afterCreate\<close> destructures the event, computes both defaults, and only then reads
  \<open>result.id\<close>, the argument of the call to \<open>createUserProfile\<close>.
\<close>

definition afterCreate :: "random_draws \<Rightarrow> store \<Rightarrow> jsval \<Rightarrow> error option \<times> store" where
  "afterCreate rnd s event =
     (case get_property event ''result'' of
        Inl e \<Rightarrow> (Some e, s)
      | Inr result \<Rightarrow>
     (case get_property event ''params'' of
        Inl e \<Rightarrow> (Some e, s)
      | Inr params \<Rightarrow>
     (let fullName' = js_or (opt_property (opt_property params ''data'') ''fullName'')
                            (Str (generateUsername rnd));
          bio' = js_or (opt_property (opt_property params ''data'') ''bio'')
                       (Str ''No bio yet'')
      in case get_property result ''id'' of
           Inl e \<Rightarrow> (Some e, s)
         | Inr userId \<Rightarrow> (None, createUserProfile s userId fullName' bio'))))"

definition beforeDelete :: "store \<Rightarrow> jsval \<Rightarrow> error option \<times> store" where
  "beforeDelete s event =
     (case get_property event ''params'' of
        Inl e \<Rightarrow> (Some e, s)
      | Inr params \<Rightarrow>
     (let idToDelete = opt_property (opt_property params ''where'') ''id''
      in (None, deleteUserProfile s idToDelete)))"

text \<open>
  A sequence of handler invocations, as the lifecycle bus makes them one after the
  other. A handler that throws has left the store as it found it.
\<close>

datatype invocation =
    AfterCreate random_draws jsval
  | BeforeDelete jsval

fun invoke :: "store \<Rightarrow> invocation \<Rightarrow> store" where
  "invoke s (AfterCreate rnd event) = snd (afterCreate rnd s event)"
| "invoke s (BeforeDelete event) = snd (beforeDelete s event)"

fun invoke_all :: "store \<Rightarrow> invocation list \<Rightarrow> store" where
  "invoke_all s [] = s"
| "invoke_all s (i # is) = invoke_all (invoke s i) is"

text \<open>The profiles whose back-reference equals a given value.\<close>

definition profilesOf :: "store \<Rightarrow> jsval \<Rightarrow> profile list" where
  "profilesOf s uid = filter (\<lambda>p. user p = uid) (docs s)"

text \<open>
  The pairing invariant: every user identifier has at most one profile. An identifier
  is a value other than \<open>undefined\<close>.
\<close>

definition one_profile_per_user :: "store \<Rightarrow> bool" where
  "one_profile_per_user s \<longleftrightarrow> (\<forall>uid. uid \<noteq> Undefined \<longrightarrow> length (profilesOf s uid) \<le> 1)"

section \<open>Properties\<close>

subsection \<open>Profiles of a user under the store operations\<close>

lemma profilesOf_create:
  "profilesOf (create s u n b) uid =
     profilesOf s uid @
       (if u = uid then [\<lparr>documentId = nextDocumentId s, user = u, fullName = n, bio = b\<rparr>] else [])"
  by (simp add: profilesOf_def create_def)

lemma profilesOf_delete_document:
  "profilesOf (delete_document s d) uid = filter (\<lambda>p. documentId p \<noteq> d) (profilesOf s uid)"
  by (simp add: profilesOf_def delete_document_def conj_commute)

lemma checkIfUserProfileExists_eq:
  "checkIfUserProfileExists s uid = (if uid = Undefined then [] else profilesOf s uid)"
  by (simp add: checkIfUserProfileExists_def findMany_def profilesOf_def)

lemma createUserProfile_count:
  assumes "uid \<noteq> Undefined" and "length (profilesOf s uid) \<le> 1"
  shows "length (profilesOf (createUserProfile s u n b) uid) \<le> 1"
proof (cases "checkIfUserProfileExists s u = []")
  case False
  then show ?thesis using assms by (simp add: createUserProfile_def)
next
  case True
  show ?thesis
  proof (cases "u = uid")
    case same: True
    with True assms have "profilesOf s uid = []"
      by (simp add: checkIfUserProfileExists_eq)
    with True same show ?thesis
      by (simp add: createUserProfile_def profilesOf_create)
  next
    case False
    with True assms show ?thesis
      by (simp add: createUserProfile_def profilesOf_create)
  qed
qed

lemma deleteUserProfile_count:
  "length (profilesOf (deleteUserProfile s u) uid) \<le> length (profilesOf s uid)"
  by (simp add: deleteUserProfile_def Let_def profilesOf_delete_document)

lemma afterCreate_count:
  assumes "uid \<noteq> Undefined" and "length (profilesOf s uid) \<le> 1"
  shows "length (profilesOf (snd (afterCreate rnd s ev)) uid) \<le> 1"
  using assms createUserProfile_count [OF assms]
  by (simp add: afterCreate_def Let_def split: sum.splits)

lemma beforeDelete_count:
  "length (profilesOf (snd (beforeDelete s ev)) uid) \<le> length (profilesOf s uid)"
  by (auto simp: beforeDelete_def Let_def deleteUserProfile_count split: sum.splits)

lemma invoke_count:
  assumes "uid \<noteq> Undefined" and "length (profilesOf s uid) \<le> 1"
  shows "length (profilesOf (invoke s i) uid) \<le> 1"
proof (cases i)
  case (AfterCreate rnd ev)
  with afterCreate_count [OF assms] show ?thesis by simp
next
  case (BeforeDelete ev)
  have "length (profilesOf (snd (beforeDelete s ev)) uid) \<le> length (profilesOf s uid)"
    by (rule beforeDelete_count)
  with assms BeforeDelete show ?thesis by simp
qed

lemma invoke_all_count:
  "uid \<noteq> Undefined \<Longrightarrow> length (profilesOf s uid) \<le> 1 \<Longrightarrow>
   length (profilesOf (invoke_all s is) uid) \<le> 1"
proof (induction "is" arbitrary: s)
  case Nil
  then show ?case by simp
next
  case (Cons i "is")
  from Cons.prems have "length (profilesOf (invoke s i) uid) \<le> 1"
    by (rule invoke_count)
  with Cons.prems(1) have "length (profilesOf (invoke_all (invoke s i) is) uid) \<le> 1"
    by (rule Cons.IH)
  then show ?case by simp
qed

subsection \<open>Document identifiers stay keys\<close>

lemma wf_store_create: "wf_store s \<Longrightarrow> wf_store (create s u n b)"
  by (auto simp: wf_store_def create_def list_all_iff less_Suc_eq)

lemma wf_store_delete_document: "wf_store s \<Longrightarrow> wf_store (delete_document s d)"
  by (auto simp: wf_store_def delete_document_def list_all_iff distinct_map_filter)

lemma wf_store_invoke: "wf_store s \<Longrightarrow> wf_store (invoke s i)"
  by (cases i)
     (auto simp: afterCreate_def beforeDelete_def createUserProfile_def deleteUserProfile_def
        Let_def wf_store_create wf_store_delete_document split: sum.splits)

lemma wf_store_invoke_all: "wf_store s \<Longrightarrow> wf_store (invoke_all s is)"
  by (induction "is" arbitrary: s) (simp_all add: wf_store_invoke)

lemma wf_store_empty: "wf_store \<lparr>docs = [], nextDocumentId = 0\<rparr>"
  by (simp add: wf_store_def)

lemma filter_other_documentId:
  assumes "distinct (map documentId ps)" and "p \<in> set ps"
  shows "filter (\<lambda>q. documentId q \<noteq> documentId p) ps = remove1 p ps"
  using assms
proof (induction ps)
  case Nil
  then show ?case by simp
next
  case (Cons a ps)
  show ?case
  proof (cases "a = p")
    case True
    with Cons.prems have "\<forall>q\<in>set ps. documentId q \<noteq> documentId p"
      by (fastforce simp: image_iff)
    then have "filter (\<lambda>q. documentId q \<noteq> documentId p) ps = ps"
      by (simp add: filter_id_conv)
    with True show ?thesis by simp
  next
    case False
    with Cons.prems have "p \<in> set ps" and "documentId a \<noteq> documentId p"
      by auto
    with False Cons show ?thesis by simp
  qed
qed

lemma filter_remove1_first:
  "filter P ps = p # rest \<Longrightarrow> filter P (remove1 p ps) = rest"
proof (induction ps)
  case Nil
  then show ?case by simp
next
  case (Cons a ps)
  show ?case
  proof (cases "P a")
    case True
    with Cons.prems show ?thesis by simp
  next
    case False
    from Cons.prems have "p \<in> set (filter P (a # ps))" by simp
    then have "P p" unfolding set_filter by blast
    with False have "a \<noteq> p" by blast
    with False Cons show ?thesis by simp
  qed
qed

subsection \<open>The handlers in terms of the helpers\<close>

lemma afterCreate_with_id:
  assumes "get_property ev ''result'' = Inr r" and "get_property r ''id'' = Inr uid"
  shows "\<exists>params. get_property ev ''params'' = Inr params \<and>
           afterCreate rnd s ev =
             (None, createUserProfile s uid
                (js_or (opt_property (opt_property params ''data'') ''fullName'')
                   (Str (generateUsername rnd)))
                (js_or (opt_property (opt_property params ''data'') ''bio'')
                   (Str ''No bio yet'')))"
  using assms by (cases ev) (simp_all add: afterCreate_def)

lemma createUserProfile_existing:
  "uid \<noteq> Undefined \<Longrightarrow> profilesOf s uid \<noteq> [] \<Longrightarrow> createUserProfile s uid n b = s"
  by (simp add: createUserProfile_def checkIfUserProfileExists_eq)

lemma createUserProfile_absent:
  "checkIfUserProfileExists s uid = [] \<Longrightarrow> createUserProfile s uid n b = create s uid n b"
  by (simp add: createUserProfile_def)

lemma createUserProfile_cases:
  "createUserProfile s uid n b = s \<or> createUserProfile s uid n b = create s uid n b"
  by (simp add: createUserProfile_def Let_def)

lemma beforeDelete_with_params:
  assumes "get_property ev ''params'' = Inr params"
  shows "beforeDelete s ev =
           (None, deleteUserProfile s (opt_property (opt_property params ''where'') ''id''))"
  using assms by (simp add: beforeDelete_def)

lemma afterCreate_effect:
  "snd (afterCreate rnd s ev) = s \<or>
   (\<exists>r uid n b. get_property ev ''result'' = Inr r \<and> get_property r ''id'' = Inr uid \<and>
      checkIfUserProfileExists s uid = [] \<and> snd (afterCreate rnd s ev) = create s uid n b)"
  by (auto simp: afterCreate_def createUserProfile_def Let_def split: sum.splits)

lemma beforeDelete_effect:
  "snd (beforeDelete s ev) = s \<or> (\<exists>d. snd (beforeDelete s ev) = delete_document s d)"
  by (auto simp: beforeDelete_def deleteUserProfile_def Let_def split: sum.splits)

subsection \<open>The generated username\<close>

lemma digit_char_digit: "digit_char d \<in> set ''0123456789''"
proof -
  have "d mod 10 < length ''0123456789''" by simp
  then have "''0123456789'' ! (d mod 10) \<in> set ''0123456789''" by (rule nth_mem)
  then show ?thesis by (simp only: digit_char_def)
qed

lemma string_of_nat_four_digits:
  assumes "1000 \<le> k" and "k \<le> 9999"
  shows "string_of_nat k =
           [digit_char (k div 1000), digit_char (k div 100 mod 10),
            digit_char (k div 10 mod 10), digit_char (k mod 10)]"
proof -
  from assms have small: "k div 1000 < 10" and big: "\<not> k div 100 < 10" "\<not> k div 10 < 10" "\<not> k < 10"
    by arith+
  have nest: "k div 100 div 10 = k div 1000" "k div 10 div 10 = k div 100"
    by arith+
  from small have d3: "string_of_nat (k div 1000) = [digit_char (k div 1000)]"
    by (simp add: string_of_nat.simps [of "k div 1000"])
  from big(1) have d2: "string_of_nat (k div 100) =
      string_of_nat (k div 1000) @ [digit_char (k div 100 mod 10)]"
    by (simp add: string_of_nat.simps [of "k div 100"] nest)
  from big(2) have d1: "string_of_nat (k div 10) =
      string_of_nat (k div 100) @ [digit_char (k div 10 mod 10)]"
    by (simp add: string_of_nat.simps [of "k div 10"] nest)
  from big(3) have d0: "string_of_nat k = string_of_nat (k div 10) @ [digit_char (k mod 10)]"
    by (simp add: string_of_nat.simps [of k])
  show ?thesis by (simp add: d0 d1 d2 d3)
qed

text \<open>Bounds on one rounding step, and on the rounded result of an operation.\<close>

lemma bit_length_upper: "n < 2 ^ bit_length n"
proof (induction n rule: bit_length.induct)
  case (1 n)
  show ?case
  proof (cases "n = 0")
    case True
    then show ?thesis by simp
  next
    case False
    with 1 have "n div 2 < 2 ^ bit_length (n div 2)" by simp
    then have "n < 2 * 2 ^ bit_length (n div 2)" by arith
    with False show ?thesis by (simp add: bit_length.simps [of n])
  qed
qed

lemma bit_length_lower: "n \<noteq> 0 \<Longrightarrow> 2 ^ (bit_length n - 1) \<le> n"
proof (induction n rule: bit_length.induct)
  case (1 n)
  show ?case
  proof (cases "n div 2 = 0")
    case True
    with 1(2) have "bit_length n = 1"
      by (simp add: bit_length.simps [of n] bit_length.simps [of 0])
    with 1(2) show ?thesis by simp
  next
    case False
    with 1 have ih: "2 ^ (bit_length (n div 2) - 1) \<le> n div 2" by simp
    from False have "bit_length (n div 2) \<noteq> 0"
      by (simp add: bit_length.simps [of "n div 2"])
    then have "bit_length n - 1 = Suc (bit_length (n div 2) - 1)"
      using 1(2) by (simp add: bit_length.simps [of n])
    with ih show ?thesis by simp
  qed
qed




lemma round_shift_lower: "N div 2 ^ k \<le> round_shift N k"
  by (simp add: round_shift_def Let_def)

lemma round_shift_upper:
  assumes "0 < k"
  shows "2 * (round_shift N k * 2 ^ k) \<le> 2 * N + 2 ^ k"
proof -
  define q where "q = N div 2 ^ k"
  define r where "r = N mod 2 ^ k"
  define h :: nat where "h = 2 ^ (k - 1)"
  from assms have hk: "(2::nat) ^ k = 2 * h"
    by (cases k) (simp_all add: h_def)
  have N: "N = q * 2 ^ k + r"
    unfolding q_def r_def by (rule div_mult_mod_eq [symmetric])
  show ?thesis
  proof (cases "h < r \<or> (r = h \<and> odd q)")
    case True
    then have "round_shift N k = q + 1"
      by (simp add: round_shift_def Let_def q_def r_def h_def)
    moreover from True have "h \<le> r" by auto
    ultimately show ?thesis
      using N hk by (simp add: algebra_simps)
  next
    case False
    then have "round_shift N k = q"
      by (simp add: round_shift_def Let_def q_def r_def h_def)
    then show ?thesis
      using N by simp
  qed
qed

lemma round_shift_le_Suc: "round_shift N k \<le> N div 2 ^ k + 1"
  by (simp add: round_shift_def Let_def)


lemma round_double_exact:
  "- 1074 \<le> f \<Longrightarrow> bit_length N \<le> 53 \<Longrightarrow> round_double N f = \<lparr>mant = N, expo = f\<rparr>"
  by (simp add: round_double_def Let_def)

lemma two_powi_add_nat: "(2::real) powi (f + int k) = 2 powi f * 2 ^ k"
  by (simp add: power_int_add)

lemma round_double_shift:
  assumes "- 1074 \<le> f" and "53 < bit_length N"
  shows "double_value (round_double N f) =
           real (round_shift N (bit_length N - 53)) * (2 powi f * 2 ^ (bit_length N - 53))"
    and "mant (round_double N f) < 2 ^ 53"
    and "f \<le> expo (round_double N f)"
proof -
  define k where "k = bit_length N - 53"
  define q where "q = round_shift N k"
  from assms have kmax: "max (int (bit_length N) - 53) (- 1074 - f) = int k" and kpos: "0 < k"
    by (simp_all add: k_def)
  have rd: "round_double N f =
      (if q = 2 ^ 53 then \<lparr>mant = 2 ^ 52, expo = f + int k + 1\<rparr> else \<lparr>mant = q, expo = f + int k\<rparr>)"
    using kpos by (simp add: round_double_def kmax Let_def q_def)
  have "N < 2 ^ bit_length N" by (rule bit_length_upper)
  also from assms(2) have "bit_length N = 53 + k" by (simp add: k_def)
  finally have "N < 2 ^ 53 * 2 ^ k" by (simp add: power_add)
  then have "N div 2 ^ k < 2 ^ 53" by (rule less_mult_imp_div_less)
  with round_shift_le_Suc [of N k] have qle: "q \<le> 2 ^ 53" by (simp add: q_def)
  show "mant (round_double N f) < 2 ^ 53"
    using qle by (simp add: rd)
  show "f \<le> expo (round_double N f)"
    by (simp add: rd)
  have "double_value (round_double N f) = real q * 2 powi (f + int k)"
  proof (cases "q = 2 ^ 53")
    case True
    have "(2::real) powi (f + int k + 1) = 2 powi (f + int k) * 2"
      by (simp add: power_int_add)
    with True show ?thesis by (simp add: rd double_value_def)
  next
    case False
    then show ?thesis by (simp add: rd double_value_def)
  qed
  then show "double_value (round_double N f) =
           real (round_shift N (bit_length N - 53)) * (2 powi f * 2 ^ (bit_length N - 53))"
    by (simp only: two_powi_add_nat q_def k_def)
qed

lemma round_double_mant:
  assumes "- 1074 \<le> f"
  shows "mant (round_double N f) < 2 ^ 53 \<and> f \<le> expo (round_double N f)"
proof (cases "bit_length N \<le> 53")
  case True
  have "N < 2 ^ bit_length N" by (rule bit_length_upper)
  also from True have "(2::nat) ^ bit_length N \<le> 2 ^ 53" by (rule power_increasing) simp
  finally show ?thesis using True assms by (simp add: round_double_exact)
next
  case False
  then have "53 < bit_length N" by simp
  with assms round_double_shift(2,3) show ?thesis by blast
qed

lemma round_double_upper:
  assumes "- 1074 \<le> f"
  shows "double_value (round_double N f) * 2 ^ 53 \<le> real N * 2 powi f * (2 ^ 53 + 1)"
proof (cases "bit_length N \<le> 53")
  case True
  have "0 \<le> real N * 2 powi f" by simp
  then have "real N * 2 powi f * 2 ^ 53 \<le> real N * 2 powi f * (2 ^ 53 + 1)"
    by (intro mult_left_mono) simp_all
  with True assms show ?thesis by (simp add: round_double_exact double_value_def)
next
  case False
  define k where "k = bit_length N - 53"
  define q where "q = round_shift N k"
  from False have big: "53 < bit_length N" and kpos: "0 < k" by (simp_all add: k_def)
  have "N \<noteq> 0"
  proof
    assume "N = 0"
    with big show False by (simp add: bit_length.simps [of 0])
  qed
  then have "2 ^ (bit_length N - 1) \<le> N" by (rule bit_length_lower)
  moreover from big have "bit_length N - 1 = k + 52" by (simp add: k_def)
  ultimately have low: "2 ^ k * 2 ^ 52 \<le> N" by (simp add: power_add)
  from round_shift_upper [OF kpos, of N] have up: "2 * (q * 2 ^ k) \<le> 2 * N + 2 ^ k"
    by (simp add: q_def)
  have "2 * (q * 2 ^ k * 2 ^ 53) = 2 * (q * 2 ^ k) * 2 ^ 53" by simp
  also from up have "\<dots> \<le> (2 * N + 2 ^ k) * 2 ^ 53" by (rule mult_le_mono1)
  also have "\<dots> = 2 * (N * 2 ^ 53) + 2 * (2 ^ k * 2 ^ 52)" by (simp add: algebra_simps)
  also from low have "\<dots> \<le> 2 * (N * 2 ^ 53) + 2 * N" by simp
  finally have "q * 2 ^ k * 2 ^ 53 \<le> N * (2 ^ 53 + 1)" by (simp add: algebra_simps)
  then have "real (q * 2 ^ k * 2 ^ 53) \<le> real (N * (2 ^ 53 + 1))" by (simp only: of_nat_le_iff)
  then have "real q * 2 ^ k * 2 ^ 53 \<le> real N * (2 ^ 53 + 1)" by simp
  then have "2 powi f * (real q * 2 ^ k * 2 ^ 53) \<le> 2 powi f * (real N * (2 ^ 53 + 1))"
    by (intro mult_left_mono) simp_all
  moreover from round_double_shift(1) [OF assms big]
  have "double_value (round_double N f) = real q * (2 powi f * 2 ^ k)"
    by (simp add: q_def k_def)
  ultimately show ?thesis by (simp add: mult_ac)
qed


lemma round_double_lower:
  assumes "- 1074 \<le> f" and "f \<le> 0" and "real c \<le> real N * 2 powi f" and "c \<le> 2 ^ 52"
  shows "real c \<le> double_value (round_double N f)"
proof (cases "bit_length N \<le> 53")
  case True
  with assms show ?thesis by (simp add: round_double_exact double_value_def)
next
  case False
  define k where "k = bit_length N - 53"
  define q where "q = round_shift N k"
  from False have big: "53 < bit_length N" by simp
  have "N \<noteq> 0"
  proof
    assume "N = 0"
    with big show False by (simp add: bit_length.simps [of 0])
  qed
  then have "2 ^ (bit_length N - 1) \<le> N" by (rule bit_length_lower)
  moreover from big have "bit_length N - 1 = 52 + k" by (simp add: k_def)
  ultimately have "2 ^ 52 * 2 ^ k \<le> N" by (simp add: power_add)
  then have "2 ^ 52 \<le> N div 2 ^ k" by (simp add: less_eq_div_iff_mult_less_eq)
  with round_shift_lower [of N k] have q52: "2 ^ 52 \<le> q" by (simp add: q_def)
  from round_double_shift(1) [OF assms(1) big]
  have val: "double_value (round_double N f) = real q * (2 powi f * 2 ^ k)"
    by (simp add: q_def k_def)
  show ?thesis
  proof (cases "int k \<le> - f")
    case True
    define j where "j = nat (- f) - k"
    from True assms(2) have f: "f = - int (k + j)" by (simp add: j_def)
    have pf: "(2::real) powi f = 1 / 2 ^ (k + j)"
      by (simp add: f power_int_minus_divide del: of_nat_add)
    from assms(3) have "real c * 2 ^ (k + j) \<le> real N"
      by (simp add: pf field_simps)
    then have "real (c * 2 ^ (k + j)) \<le> real N" by simp
    then have "c * 2 ^ j * 2 ^ k \<le> N" by (simp only: of_nat_le_iff power_add mult_ac)
    then have "c * 2 ^ j \<le> N div 2 ^ k" by (simp add: less_eq_div_iff_mult_less_eq)
    with round_shift_lower [of N k] have "c * 2 ^ j \<le> q" by (simp add: q_def)
    then have "real (c * 2 ^ j) \<le> real q" by (simp only: of_nat_le_iff)
    then have "real c \<le> real q / 2 ^ j" by (simp add: field_simps)
    also have "\<dots> = real q * (2 powi f * 2 ^ k)"
      by (simp add: pf power_add)
    finally show ?thesis by (simp only: val)
  next
    case False
    then have "(1::real) \<le> 2 powi (f + int k)"
      by (intro one_le_power_int) simp_all
    then have "(1::real) \<le> 2 powi f * 2 ^ k" by (simp only: two_powi_add_nat)
    then have "real q * 1 \<le> real q * (2 powi f * 2 ^ k)"
      by (intro mult_left_mono) simp_all
    moreover from assms(4) q52 have "real c \<le> real q"
      by (simp only: of_nat_le_iff)
    ultimately have "real c \<le> real q * (2 powi f * 2 ^ k)" by simp
    then show ?thesis by (simp only: val)
  qed
qed

lemma dmul_exact_value:
  "real (mant a * mant b) * 2 powi (expo a + expo b) = double_value a * double_value b"
  by (simp add: double_value_def power_int_add)

lemma dadd_exact_value:
  "real (mant a * 2 ^ nat (expo a - min (expo a) (expo b)) +
         mant b * 2 ^ nat (expo b - min (expo a) (expo b))) * 2 powi min (expo a) (expo b) =
   double_value a + double_value b"
proof -
  define f where "f = min (expo a) (expo b)"
  have a: "(2::real) powi expo a = 2 powi f * 2 ^ nat (expo a - f)"
    using two_powi_add_nat [of f "nat (expo a - f)"] by (simp add: f_def)
  have b: "(2::real) powi expo b = 2 powi f * 2 ^ nat (expo b - f)"
    using two_powi_add_nat [of f "nat (expo b - f)"] by (simp add: f_def)
  show ?thesis
    unfolding f_def [symmetric] by (simp add: double_value_def a b algebra_simps)
qed

lemma dfloor_eq: "dfloor d = \<lfloor>double_value d\<rfloor>"
proof (cases "0 \<le> expo d")
  case True
  then have "(2::real) powi expo d = 2 ^ nat (expo d)"
    by (simp add: power_int_def)
  then have "double_value d = of_int (int (mant d) * 2 ^ nat (expo d))"
    by (simp add: double_value_def)
  then have "\<lfloor>double_value d\<rfloor> = int (mant d) * 2 ^ nat (expo d)"
    by (simp only: floor_of_int)
  with True show ?thesis by (simp add: dfloor_def)
next
  case False
  then have "(2::real) powi expo d = 1 / 2 ^ nat (- expo d)"
    by (simp add: power_int_def field_simps)
  then have "double_value d = of_nat (mant d) / of_nat (2 ^ nat (- expo d))"
    by (simp add: double_value_def)
  then have "\<lfloor>double_value d\<rfloor> = int (mant d div 2 ^ nat (- expo d))"
    by (simp only: floor_divide_of_nat_eq)
  with False show ?thesis by (simp add: dfloor_def)
qed


text \<open>The draws are exactly the doubles below 1.\<close>

lemma unit_draw_iff:
  "unit_draw d \<longleftrightarrow> mant d < 2 ^ 53 \<and> - 1074 \<le> expo d \<and> double_value d < 1"
proof (cases "0 \<le> expo d")
  case True
  then have "(2::real) powi expo d = 2 ^ nat (expo d)"
    by (simp add: power_int_def)
  then have v: "double_value d = real (mant d * 2 ^ nat (expo d))"
    by (simp add: double_value_def)
  have "double_value d < 1 \<longleftrightarrow> mant d = 0"
    unfolding v using of_nat_less_iff [of "mant d * 2 ^ nat (expo d)" 1, where ?'a = real]
    by (auto simp del: of_nat_mult of_nat_power)
  with True show ?thesis by (auto simp: unit_draw_def)
next
  case False
  then have pe: "(2::real) powi expo d = 1 / 2 ^ nat (- expo d)"
    by (simp add: power_int_def field_simps)
  have "double_value d < 1 \<longleftrightarrow> real (mant d) < real (2 ^ nat (- expo d))"
    by (simp only: double_value_def pe) (simp add: field_simps)
  also have "\<dots> \<longleftrightarrow> mant d < 2 ^ nat (- expo d)"
    by (simp only: of_nat_less_iff)
  finally show ?thesis by (auto simp: unit_draw_def)
qed

lemma unit_draw_value:
  assumes "unit_draw d"
  shows "0 \<le> double_value d" and "double_value d * 2 ^ 53 \<le> 2 ^ 53 - 1"
proof -
  show "0 \<le> double_value d" by (simp add: double_value_def)
  define n where "n = nat (- expo d)"
  from assms have m53: "mant d < 2 ^ 53" and mn: "mant d < 2 ^ n" and e: "- 1074 \<le> expo d"
    by (simp_all add: unit_draw_def n_def)
  show "double_value d * 2 ^ 53 \<le> 2 ^ 53 - 1"
  proof (cases "0 \<le> expo d")
    case True
    with mn have "mant d = 0" by (simp add: n_def)
    then show ?thesis by (simp add: double_value_def)
  next
    case False
    then have pe: "(2::real) powi expo d = 1 / 2 ^ n"
      by (simp add: power_int_def field_simps n_def)
    show ?thesis
    proof (cases "n \<le> 53")
      case True
      from mn have "Suc (mant d) \<le> 2 ^ n" by simp
      then have "Suc (mant d) * 2 ^ (53 - n) \<le> 2 ^ n * 2 ^ (53 - n)" by (rule mult_le_mono1)
      also from True have "(2::nat) ^ n * 2 ^ (53 - n) = 2 ^ 53"
        by (simp add: power_add [symmetric])
      finally have "real (Suc (mant d) * 2 ^ (53 - n)) \<le> real (2 ^ 53)"
        by (simp only: of_nat_le_iff)
      then have "real (mant d) * 2 ^ (53 - n) + 2 ^ (53 - n) \<le> 2 ^ 53"
        by (simp add: algebra_simps)
      moreover have "(1::real) \<le> 2 ^ (53 - n)" by simp
      ultimately have "real (mant d) * 2 ^ (53 - n) \<le> 2 ^ 53 - 1" by linarith
      moreover from True have split: "(2::real) ^ 53 = 2 ^ n * 2 ^ (53 - n)"
        by (simp add: power_add [symmetric])
      have "double_value d * 2 ^ 53 = real (mant d) * 2 ^ (53 - n)"
        by (simp only: double_value_def pe split) simp
      ultimately show ?thesis by simp
    next
      case False
      then have "(2::real) ^ 53 \<le> 2 ^ n" by (intro power_increasing) simp_all
      moreover from m53 have "real (mant d) \<le> 2 ^ 53 - 1"
        using of_nat_le_iff [of "Suc (mant d)" "2 ^ 53", where ?'a = real] by simp
      moreover have "0 \<le> real (mant d)" by simp
      ultimately have "real (mant d) * 2 ^ 53 \<le> (2 ^ 53 - 1) * 2 ^ n"
        by (intro mult_mono) simp_all
      then show ?thesis by (simp add: double_value_def pe field_simps)
    qed
  qed
qed

lemma below_9000_gap:
  assumes "mant d < 2 ^ 53" and "double_value d < 9000"
  shows "double_value d * 2 ^ 39 \<le> 9000 * 2 ^ 39 - 1"
proof (cases "- 39 \<le> expo d")
  case True
  define j where "j = nat (expo d + 39)"
  from True have "expo d = - 39 + int j" by (simp add: j_def)
  then have "(2::real) powi expo d = 2 powi (- 39) * 2 ^ j"
    by (simp only: two_powi_add_nat)
  then have v: "double_value d * 2 ^ 39 = real (mant d * 2 ^ j)"
    by (simp add: double_value_def power_int_minus_divide)
  from assms(2) have "double_value d * 2 ^ 39 < 9000 * 2 ^ 39" by simp
  then have "real (mant d * 2 ^ j) < real (9000 * 2 ^ 39)" by (simp only: v) simp
  then have "mant d * 2 ^ j < 9000 * 2 ^ 39" by (simp only: of_nat_less_iff)
  then have "Suc (mant d * 2 ^ j) \<le> 9000 * 2 ^ 39" by simp
  then have "real (Suc (mant d * 2 ^ j)) \<le> real (9000 * 2 ^ 39)" by (simp only: of_nat_le_iff)
  then show ?thesis by (simp only: v) simp
next
  case False
  then have "(2::real) powi expo d \<le> 2 powi (- 40)"
    by (intro power_int_increasing) simp_all
  moreover from assms(1) have "real (mant d) \<le> 2 ^ 53"
    using of_nat_le_iff [of "mant d" "2 ^ 53", where ?'a = real] by simp
  ultimately have "real (mant d) * 2 powi expo d \<le> 2 ^ 53 * 2 powi (- 40)"
    by (intro mult_mono) simp_all
  then have "double_value d \<le> 8192"
    by (simp add: double_value_def power_int_minus_divide)
  then show ?thesis by simp
qed


lemma double_value_of_nat: "double_value (double_of_nat n) = real n"
  by (simp add: double_value_def double_of_nat_def)

lemma double_value_nonneg: "0 \<le> double_value d"
  by (simp add: double_value_def)

lemma dmul_of_nat_bounds:
  assumes "unit_draw r"
  shows "double_value (dmul r (double_of_nat n)) * 2 ^ 53 \<le> double_value r * real n * (2 ^ 53 + 1)"
    and "mant (dmul r (double_of_nat n)) < 2 ^ 53"
    and "- 1074 \<le> expo (dmul r (double_of_nat n))"
proof -
  from assms have e: "- 1074 \<le> expo r + expo (double_of_nat n)"
    by (simp add: unit_draw_def double_of_nat_def)
  from round_double_upper [OF e, of "mant r * mant (double_of_nat n)"]
  show "double_value (dmul r (double_of_nat n)) * 2 ^ 53 \<le> double_value r * real n * (2 ^ 53 + 1)"
    by (simp only: dmul_def dmul_exact_value double_value_of_nat)
  from round_double_mant [OF e, of "mant r * mant (double_of_nat n)"] e
  show "mant (dmul r (double_of_nat n)) < 2 ^ 53" and "- 1074 \<le> expo (dmul r (double_of_nat n))"
    by (simp_all only: dmul_def) linarith
qed

lemma random_number_range:
  assumes "unit_draw r"
  shows "1000 \<le> dfloor (dadd (double_of_nat 1000) (dmul r (double_of_nat 9000))) \<and>
         dfloor (dadd (double_of_nat 1000) (dmul r (double_of_nat 9000))) \<le> 9999"
proof -
  define p where "p = dmul r (double_of_nat 9000)"
  define s where "s = dadd (double_of_nat 1000) p"
  from dmul_of_nat_bounds [OF assms, of 9000]
  have p1: "double_value p * 2 ^ 53 \<le> double_value r * 9000 * (2 ^ 53 + 1)"
    and p2: "mant p < 2 ^ 53" and p3: "- 1074 \<le> expo p"
    by (simp_all add: p_def)
  from unit_draw_value(2) [OF assms] have r1: "double_value r * 2 ^ 53 \<le> 2 ^ 53 - 1" .
  from p1 r1 have "double_value p < 9000" by simp
  with p2 have gap: "double_value p * 2 ^ 39 \<le> 9000 * 2 ^ 39 - 1" by (rule below_9000_gap)
  define f where "f = min (expo (double_of_nat 1000)) (expo p)"
  define N where "N = mant (double_of_nat 1000) * 2 ^ nat (expo (double_of_nat 1000) - f) +
                      mant p * 2 ^ nat (expo p - f)"
  have s: "s = round_double N f"
    by (simp add: s_def dadd_def Let_def N_def f_def)
  have x: "real N * 2 powi f = 1000 + double_value p"
    unfolding N_def f_def by (simp only: dadd_exact_value double_value_of_nat)
  from p3 have f1: "- 1074 \<le> f" and f2: "f \<le> 0"
    by (simp_all add: f_def double_of_nat_def)
  have "real 1000 \<le> real N * 2 powi f"
    using double_value_nonneg [of p] by (simp add: x)
  moreover have "(1000::nat) \<le> 2 ^ 52" by simp
  ultimately have "real 1000 \<le> double_value (round_double N f)"
    using f1 f2 by (intro round_double_lower)
  then have lo: "1000 \<le> double_value s" by (simp add: s)
  from round_double_upper [OF f1, of N]
  have "double_value s * 2 ^ 53 \<le> (1000 + double_value p) * (2 ^ 53 + 1)"
    by (simp only: s x)
  with gap have hi: "double_value s < 10000" by simp
  from lo have "1000 \<le> \<lfloor>double_value s\<rfloor>" by (simp add: le_floor_iff)
  moreover from hi have "\<lfloor>double_value s\<rfloor> < 10000" by (simp add: floor_less_iff)
  ultimately show ?thesis
    by (simp add: dfloor_eq s_def p_def)
qed

lemma random_index_range:
  assumes "unit_draw r"
  shows "0 \<le> dfloor (dmul r (double_of_nat 8)) \<and> dfloor (dmul r (double_of_nat 8)) < 8"
proof -
  define p where "p = dmul r (double_of_nat 8)"
  from dmul_of_nat_bounds(1) [OF assms, of 8]
  have p1: "double_value p * 2 ^ 53 \<le> double_value r * 8 * (2 ^ 53 + 1)"
    by (simp add: p_def)
  from unit_draw_value(2) [OF assms] have r1: "double_value r * 2 ^ 53 \<le> 2 ^ 53 - 1" .
  from p1 r1 have "double_value p < 8" by simp
  then have "\<lfloor>double_value p\<rfloor> < 8" by (simp add: floor_less_iff)
  moreover have "0 \<le> \<lfloor>double_value p\<rfloor>"
    using double_value_nonneg [of p] by simp
  ultimately show ?thesis by (simp add: dfloor_eq p_def)
qed


lemma js_index_in_range:
  assumes "0 \<le> i" and "i < int (length xs)"
  shows "\<exists>x\<in>set xs. js_index xs i = Str x"
proof -
  from assms have "nat i < length xs" by simp
  then have "xs ! nat i \<in> set xs" by (rule nth_mem)
  with assms show ?thesis by (simp add: js_index_def)
qed

lemma generateUsername_pattern:
  assumes "unit_draw (number_draw rnd)" and "unit_draw (adjective_draw rnd)"
    and "unit_draw (noun_draw rnd)"
  shows "\<exists>a\<in>set adjectives. \<exists>n\<in>set nouns. \<exists>k. 1000 \<le> k \<and> k \<le> 9999 \<and>
           generateUsername rnd = a @ n @ string_of_nat k"
proof -
  have la: "length adjectives = 8" and ln: "length nouns = 8"
    by (simp_all add: adjectives_def nouns_def)
  define i where "i = dfloor (dmul (adjective_draw rnd) (double_of_nat (length adjectives)))"
  define j where "j = dfloor (dmul (noun_draw rnd) (double_of_nat (length nouns)))"
  define m where
    "m = dfloor (dadd (double_of_nat 1000) (dmul (number_draw rnd) (double_of_nat 9000)))"
  from random_index_range [OF assms(2)] have "0 \<le> i" "i < int (length adjectives)"
    by (simp_all add: i_def la)
  then obtain a where a: "a \<in> set adjectives" "js_index adjectives i = Str a"
    using js_index_in_range by blast
  from random_index_range [OF assms(3)] have "0 \<le> j" "j < int (length nouns)"
    by (simp_all add: j_def ln)
  then obtain n where n: "n \<in> set nouns" "js_index nouns j = Str n"
    using js_index_in_range by blast
  from random_number_range [OF assms(1)] have m: "1000 \<le> m" "m \<le> 9999"
    unfolding m_def by blast+
  then have k: "1000 \<le> nat m" "nat m \<le> 9999" "string_of_int m = string_of_nat (nat m)"
    by (simp_all add: string_of_int_def)
  have "generateUsername rnd =
          to_string (js_index adjectives i) @ to_string (js_index nouns j) @ to_string (Num m)"
    by (simp only: generateUsername_def Let_def i_def j_def m_def)
  also have "\<dots> = a @ n @ string_of_nat (nat m)"
    by (simp only: a(2) n(2) k(3) to_string.simps)
  finally show ?thesis using a(1) n(1) k(1,2) by blast
qed

lemma generateUsername_example:
  "generateUsername
     \<lparr>number_draw = \<lparr>mant = 1, expo = - 1\<rparr>, adjective_draw = \<lparr>mant = 1, expo = - 2\<rparr>,
      noun_draw = \<lparr>mant = 7, expo = - 3\<rparr>\<rparr> = ''CleverHawk5500''"
proof -
  have b: "bit_length 8 = 4" "bit_length 56 = 6" "bit_length 9000 = 14" "bit_length 11000 = 14"
    by (simp_all add: bit_length.simps)
  have la: "length adjectives = 8" and ln: "length nouns = 8"
    by (simp_all add: adjectives_def nouns_def)
  have m: "dfloor (dadd (double_of_nat 1000)
             (dmul \<lparr>mant = 1, expo = - 1\<rparr> (double_of_nat 9000))) = 5500"
    by (simp add: dmul_def dadd_def dfloor_def double_of_nat_def round_double_def b Let_def)
  have i: "dfloor (dmul \<lparr>mant = 1, expo = - 2\<rparr> (double_of_nat 8)) = 2"
    by (simp add: dmul_def dfloor_def double_of_nat_def round_double_def b Let_def)
  have j: "dfloor (dmul \<lparr>mant = 7, expo = - 3\<rparr> (double_of_nat 8)) = 7"
    by (simp add: dmul_def dfloor_def double_of_nat_def round_double_def b Let_def)
  have "generateUsername
     \<lparr>number_draw = \<lparr>mant = 1, expo = - 1\<rparr>, adjective_draw = \<lparr>mant = 1, expo = - 2\<rparr>,
      noun_draw = \<lparr>mant = 7, expo = - 3\<rparr>\<rparr> =
        to_string (js_index adjectives 2) @ to_string (js_index nouns 7) @ to_string (Num 5500)"
    by (simp only: generateUsername_def Let_def random_draws.select_convs la ln m i j)
  also have "\<dots> = ''CleverHawk5500''"
    by (simp add: adjectives_def nouns_def js_index_def string_of_int_def
          string_of_nat_four_digits digit_char_def)
  finally show ?thesis .
qed

text \<open>
  A draw at which rounding decides the result: the exact value of
  \<open>1000 + r * 9000\<close> for \<open>r = 7732180160236544 * 2 ^ - 53\<close> lies below 8726, and
  the doubles round up to it.
\<close>

lemma bit_length_example: "bit_length 69589621442128896000 = 66"
  by (simp add: bit_length.simps)

lemma rounding_example: "dfloor (dadd (double_of_nat 1000)
     (dmul \<lparr>mant = 7732180160236544, expo = - 53\<rparr> (double_of_nat 9000))) = 8726"
proof -
  have p: "dmul \<lparr>mant = 7732180160236544, expo = - 53\<rparr> (double_of_nat 9000) =
             \<lparr>mant = 8494826836197375, expo = - 40\<rparr>"
    by (simp add: dmul_def double_of_nat_def round_double_def round_shift_def bit_length_example Let_def)
  have b2: "bit_length 9594338463973375 = 54"
    by (simp add: bit_length.simps)
  have s: "dadd (double_of_nat 1000) \<lparr>mant = 8494826836197375, expo = - 40\<rparr> =
             \<lparr>mant = 4797169231986688, expo = - 39\<rparr>"
    by (simp add: dadd_def double_of_nat_def round_double_def round_shift_def b2 Let_def)
  show ?thesis by (simp add: p s dfloor_def)
qed


lemma rounding_example_draw: "unit_draw \<lparr>mant = 7732180160236544, expo = - 53\<rparr>"
  by (simp add: unit_draw_def)

subsection \<open>The pairing invariant\<close>

text \<open>
  C1. At most one profile exists per user identifier: from a store where this holds,
  every sequence of \<open>afterCreate\<close> and \<open>beforeDelete\<close> invocations leads to a store
  where it holds. The two handlers act as the invariant needs: \<open>afterCreate\<close> leaves
  the store as it is or performs one \<open>create\<close> after an empty lookup for the
  identifier \<open>result.id\<close>, and \<open>beforeDelete\<close> leaves the store as it is or performs
  one \<open>delete\<close>.
\<close>

theorem pairing_invariant_preserved:
  "(one_profile_per_user s \<longrightarrow> one_profile_per_user (invoke_all s is)) \<and>
   (snd (afterCreate rnd s ev) = s \<or>
    (\<exists>r uid n b. get_property ev ''result'' = Inr r \<and> get_property r ''id'' = Inr uid \<and>
       checkIfUserProfileExists s uid = [] \<and> snd (afterCreate rnd s ev) = create s uid n b)) \<and>
   (snd (beforeDelete s ev') = s \<or> (\<exists>d. snd (beforeDelete s ev') = delete_document s d))"
proof -
  have "one_profile_per_user s \<longrightarrow> one_profile_per_user (invoke_all s is)"
    unfolding one_profile_per_user_def by (blast intro: invoke_all_count)
  with afterCreate_effect [of rnd s ev] beforeDelete_effect [of s ev'] show ?thesis
    by blast
qed

theorem pairing_invariant_preserved_witness:
  "one_profile_per_user \<lparr>docs = [\<lparr>documentId = 0, user = Num 42, fullName = Str ''Ada Lovelace'', bio = Str ''Mathematician''\<rparr>], nextDocumentId = 1\<rparr> \<and>
   one_profile_per_user
     (invoke_all \<lparr>docs = [\<lparr>documentId = 0, user = Num 42, fullName = Str ''Ada Lovelace'', bio = Str ''Mathematician''\<rparr>], nextDocumentId = 1\<rparr>
     [AfterCreate \<lparr>number_draw = \<lparr>mant = 1, expo = - 1\<rparr>, adjective_draw = \<lparr>mant = 1, expo = - 2\<rparr>, noun_draw = \<lparr>mant = 7, expo = - 3\<rparr>\<rparr>
        (Obj [(''result'', Obj [(''id'', Num 7)]), (''params'', Obj [(''data'', Obj [])])]),
      AfterCreate \<lparr>number_draw = \<lparr>mant = 1, expo = - 1\<rparr>, adjective_draw = \<lparr>mant = 1, expo = - 2\<rparr>, noun_draw = \<lparr>mant = 7, expo = - 3\<rparr>\<rparr>
        (Obj [(''result'', Obj [(''id'', Num 7)]), (''params'', Obj [(''data'', Obj [])])]),
      BeforeDelete (Obj [(''params'', Obj [(''where'', Obj [(''id'', Num 42)])])])]) \<and>
   (snd (afterCreate \<lparr>number_draw = \<lparr>mant = 1, expo = - 1\<rparr>, adjective_draw = \<lparr>mant = 1, expo = - 2\<rparr>, noun_draw = \<lparr>mant = 7, expo = - 3\<rparr>\<rparr> \<lparr>docs = [\<lparr>documentId = 0, user = Num 42, fullName = Str ''Ada Lovelace'', bio = Str ''Mathematician''\<rparr>], nextDocumentId = 1\<rparr> (Obj [(''result'', Obj [(''id'', Num 7)]), (''params'', Obj [(''data'', Obj [])])])) = \<lparr>docs = [\<lparr>documentId = 0, user = Num 42, fullName = Str ''Ada Lovelace'', bio = Str ''Mathematician''\<rparr>], nextDocumentId = 1\<rparr> \<or>
    (\<exists>r uid n b. get_property (Obj [(''result'', Obj [(''id'', Num 7)]), (''params'', Obj [(''data'', Obj [])])]) ''result'' = Inr r \<and> get_property r ''id'' = Inr uid \<and>
       checkIfUserProfileExists \<lparr>docs = [\<lparr>documentId = 0, user = Num 42, fullName = Str ''Ada Lovelace'', bio = Str ''Mathematician''\<rparr>], nextDocumentId = 1\<rparr> uid = [] \<and>
       snd (afterCreate \<lparr>number_draw = \<lparr>mant = 1, expo = - 1\<rparr>, adjective_draw = \<lparr>mant = 1, expo = - 2\<rparr>, noun_draw = \<lparr>mant = 7, expo = - 3\<rparr>\<rparr> \<lparr>docs = [\<lparr>documentId = 0, user = Num 42, fullName = Str ''Ada Lovelace'', bio = Str ''Mathematician''\<rparr>], nextDocumentId = 1\<rparr> (Obj [(''result'', Obj [(''id'', Num 7)]), (''params'', Obj [(''data'', Obj [])])])) = create \<lparr>docs = [\<lparr>documentId = 0, user = Num 42, fullName = Str ''Ada Lovelace'', bio = Str ''Mathematician''\<rparr>], nextDocumentId = 1\<rparr> uid n b)) \<and>
   (snd (beforeDelete \<lparr>docs = [\<lparr>documentId = 0, user = Num 42, fullName = Str ''Ada Lovelace'', bio = Str ''Mathematician''\<rparr>], nextDocumentId = 1\<rparr> (Obj [(''params'', Obj [(''where'', Obj [(''id'', Num 42)])])])) = \<lparr>docs = [\<lparr>documentId = 0, user = Num 42, fullName = Str ''Ada Lovelace'', bio = Str ''Mathematician''\<rparr>], nextDocumentId = 1\<rparr> \<or>
    (\<exists>d. snd (beforeDelete \<lparr>docs = [\<lparr>documentId = 0, user = Num 42, fullName = Str ''Ada Lovelace'', bio = Str ''Mathematician''\<rparr>], nextDocumentId = 1\<rparr> (Obj [(''params'', Obj [(''where'', Obj [(''id'', Num 42)])])])) = delete_document \<lparr>docs = [\<lparr>documentId = 0, user = Num 42, fullName = Str ''Ada Lovelace'', bio = Str ''Mathematician''\<rparr>], nextDocumentId = 1\<rparr> d))"
proof -
  have h: "one_profile_per_user \<lparr>docs = [\<lparr>documentId = 0, user = Num 42, fullName = Str ''Ada Lovelace'', bio = Str ''Mathematician''\<rparr>], nextDocumentId = 1\<rparr>"
    by (simp add: one_profile_per_user_def profilesOf_def)
  from h pairing_invariant_preserved
    [of "\<lparr>docs = [\<lparr>documentId = 0, user = Num 42, fullName = Str ''Ada Lovelace'', bio = Str ''Mathematician''\<rparr>], nextDocumentId = 1\<rparr>"
     "[AfterCreate \<lparr>number_draw = \<lparr>mant = 1, expo = - 1\<rparr>, adjective_draw = \<lparr>mant = 1, expo = - 2\<rparr>, noun_draw = \<lparr>mant = 7, expo = - 3\<rparr>\<rparr>
        (Obj [(''result'', Obj [(''id'', Num 7)]), (''params'', Obj [(''data'', Obj [])])]),
      AfterCreate \<lparr>number_draw = \<lparr>mant = 1, expo = - 1\<rparr>, adjective_draw = \<lparr>mant = 1, expo = - 2\<rparr>, noun_draw = \<lparr>mant = 7, expo = - 3\<rparr>\<rparr>
        (Obj [(''result'', Obj [(''id'', Num 7)]), (''params'', Obj [(''data'', Obj [])])]),
      BeforeDelete (Obj [(''params'', Obj [(''where'', Obj [(''id'', Num 42)])])])]"
     "\<lparr>number_draw = \<lparr>mant = 1, expo = - 1\<rparr>, adjective_draw = \<lparr>mant = 1, expo = - 2\<rparr>, noun_draw = \<lparr>mant = 7, expo = - 3\<rparr>\<rparr>"
     "(Obj [(''result'', Obj [(''id'', Num 7)]), (''params'', Obj [(''data'', Obj [])])])"
     "(Obj [(''params'', Obj [(''where'', Obj [(''id'', Num 42)])])])"]
  show ?thesis by blast
qed

subsection \<open>Idempotence of creation\<close>

text \<open>
  C2, counterexample. The starting store holds two profiles of user 7. After two
  \<open>afterCreate\<close> invocations for user 7 the store still holds two profiles of user 7,
  not exactly one.
\<close>

theorem afterCreate_twice_counterexample:
  "length (profilesOf
     (invoke_all
        \<lparr>docs = [\<lparr>documentId = 0, user = Num 7, fullName = Str ''A'', bio = Str ''B''\<rparr>,
                 \<lparr>documentId = 1, user = Num 7, fullName = Str ''C'', bio = Str ''D''\<rparr>],
         nextDocumentId = 2\<rparr>
        [AfterCreate \<lparr>number_draw = \<lparr>mant = 0, expo = 0\<rparr>, adjective_draw = \<lparr>mant = 0, expo = 0\<rparr>, noun_draw = \<lparr>mant = 0, expo = 0\<rparr>\<rparr>
           (Obj [(''result'', Obj [(''id'', Num 7)]), (''params'', Obj [])]),
         AfterCreate \<lparr>number_draw = \<lparr>mant = 0, expo = 0\<rparr>, adjective_draw = \<lparr>mant = 0, expo = 0\<rparr>, noun_draw = \<lparr>mant = 0, expo = 0\<rparr>\<rparr>
           (Obj [(''result'', Obj [(''id'', Num 7)]), (''params'', Obj [])])])
     (Num 7)) = 2"
  by (simp add: afterCreate_def createUserProfile_def checkIfUserProfileExists_def findMany_def
        profilesOf_def Let_def)

text \<open>
  C2, amended. Two \<open>afterCreate\<close> invocations in sequence for the same user
  identifier (a value other than \<open>undefined\<close>): the second one returns without an
  error and leaves the store exactly as the first one left it, from every starting
  store. When the starting store holds at most one profile of the identifier, the store
  holds exactly one after the first invocation, hence after both. The claim as written
  promises exactly one profile from every starting store; a store that already holds
  two profiles of the identifier keeps both, since the handler never removes a
  profile and adds one only after an empty lookup.
\<close>

theorem afterCreate_twice:
  assumes "get_property ev1 ''result'' = Inr r1" and "get_property r1 ''id'' = Inr uid"
    and "get_property ev2 ''result'' = Inr r2" and "get_property r2 ''id'' = Inr uid"
    and "uid \<noteq> Undefined"
  shows "afterCreate rnd2 (snd (afterCreate rnd1 s ev1)) ev2 = (None, snd (afterCreate rnd1 s ev1)) \<and>
         (length (profilesOf s uid) \<le> 1 \<longrightarrow>
            length (profilesOf (snd (afterCreate rnd1 s ev1)) uid) = 1)"
proof -
  from afterCreate_with_id [OF assms(1,2), of rnd1 s] obtain n1 b1
    where first: "afterCreate rnd1 s ev1 = (None, createUserProfile s uid n1 b1)"
    by blast
  have both: "profilesOf (createUserProfile s uid n1 b1) uid \<noteq> [] \<and>
      (length (profilesOf s uid) \<le> 1 \<longrightarrow>
         length (profilesOf (createUserProfile s uid n1 b1) uid) = 1)"
  proof (cases "profilesOf s uid = []")
    case True
    with assms(5) have "length (profilesOf (createUserProfile s uid n1 b1) uid) = 1"
      by (simp add: createUserProfile_def checkIfUserProfileExists_eq profilesOf_create)
    then show ?thesis by auto
  next
    case False
    with assms(5) have same: "createUserProfile s uid n1 b1 = s"
      by (rule createUserProfile_existing)
    from False have "length (profilesOf s uid) \<le> 1 \<longrightarrow> length (profilesOf s uid) = 1"
      by (cases "profilesOf s uid") simp_all
    with same False show ?thesis by simp
  qed
  then have some: "profilesOf (createUserProfile s uid n1 b1) uid \<noteq> []"
    and one: "length (profilesOf s uid) \<le> 1 \<longrightarrow>
                length (profilesOf (createUserProfile s uid n1 b1) uid) = 1"
    by blast+
  from assms(5) some have noop: "\<And>n b.
      createUserProfile (createUserProfile s uid n1 b1) uid n b = createUserProfile s uid n1 b1"
    by (rule createUserProfile_existing)
  from afterCreate_with_id [OF assms(3,4), of rnd2 "createUserProfile s uid n1 b1"] obtain n2 b2
    where "afterCreate rnd2 (createUserProfile s uid n1 b1) ev2 =
             (None, createUserProfile (createUserProfile s uid n1 b1) uid n2 b2)"
    by blast
  with noop first one show ?thesis by simp
qed

theorem afterCreate_twice_witness:
  "get_property (Obj [(''result'', Obj [(''id'', Num 7)]), (''params'', Obj [(''data'', Obj [])])]) ''result'' = Inr (Obj [(''id'', Num 7)]) \<and>
   get_property (Obj [(''id'', Num 7)]) ''id'' = Inr (Num 7) \<and>
   Num 7 \<noteq> Undefined \<and>
   length (profilesOf \<lparr>docs = [], nextDocumentId = 0\<rparr> (Num 7)) \<le> 1 \<and>
   afterCreate \<lparr>number_draw = \<lparr>mant = 1, expo = - 1\<rparr>, adjective_draw = \<lparr>mant = 1, expo = - 2\<rparr>, noun_draw = \<lparr>mant = 7, expo = - 3\<rparr>\<rparr> (snd (afterCreate \<lparr>number_draw = \<lparr>mant = 1, expo = - 1\<rparr>, adjective_draw = \<lparr>mant = 1, expo = - 2\<rparr>, noun_draw = \<lparr>mant = 7, expo = - 3\<rparr>\<rparr> \<lparr>docs = [], nextDocumentId = 0\<rparr> (Obj [(''result'', Obj [(''id'', Num 7)]), (''params'', Obj [(''data'', Obj [])])]))) (Obj [(''result'', Obj [(''id'', Num 7)]), (''params'', Obj [(''data'', Obj [])])]) =
     (None, snd (afterCreate \<lparr>number_draw = \<lparr>mant = 1, expo = - 1\<rparr>, adjective_draw = \<lparr>mant = 1, expo = - 2\<rparr>, noun_draw = \<lparr>mant = 7, expo = - 3\<rparr>\<rparr> \<lparr>docs = [], nextDocumentId = 0\<rparr> (Obj [(''result'', Obj [(''id'', Num 7)]), (''params'', Obj [(''data'', Obj [])])]))) \<and>
   length (profilesOf (snd (afterCreate \<lparr>number_draw = \<lparr>mant = 1, expo = - 1\<rparr>, adjective_draw = \<lparr>mant = 1, expo = - 2\<rparr>, noun_draw = \<lparr>mant = 7, expo = - 3\<rparr>\<rparr> \<lparr>docs = [], nextDocumentId = 0\<rparr> (Obj [(''result'', Obj [(''id'', Num 7)]), (''params'', Obj [(''data'', Obj [])])]))) (Num 7)) = 1"
proof -
  have h1: "get_property (Obj [(''result'', Obj [(''id'', Num 7)]), (''params'', Obj [(''data'', Obj [])])]) ''result'' = Inr (Obj [(''id'', Num 7)])"
    by simp
  have h2: "get_property (Obj [(''id'', Num 7)]) ''id'' = Inr (Num 7)"
    by simp
  have h3: "Num 7 \<noteq> Undefined"
    by simp
  have h4: "length (profilesOf \<lparr>docs = [], nextDocumentId = 0\<rparr> (Num 7)) \<le> 1"
    by (simp add: profilesOf_def)
  from h1 h2 h3 h4 afterCreate_twice [OF h1 h2 h1 h2 h3, of "\<lparr>number_draw = \<lparr>mant = 1, expo = - 1\<rparr>, adjective_draw = \<lparr>mant = 1, expo = - 2\<rparr>, noun_draw = \<lparr>mant = 7, expo = - 3\<rparr>\<rparr>" "\<lparr>number_draw = \<lparr>mant = 1, expo = - 1\<rparr>, adjective_draw = \<lparr>mant = 1, expo = - 2\<rparr>, noun_draw = \<lparr>mant = 7, expo = - 3\<rparr>\<rparr>" "\<lparr>docs = [], nextDocumentId = 0\<rparr>"]
  show ?thesis by blast
qed

subsection \<open>Postcondition of afterCreate\<close>

text \<open>
  C3. When \<open>afterCreate\<close> completes without an error for an event whose
  \<open>result.id\<close> is \<open>uid\<close>: if no profile referred to \<open>uid\<close> before, exactly one does
  afterwards; if one did (and \<open>uid\<close> is an identifier), the store is unchanged. In
  every case the handler either leaves the store as it is or performs the single
  insertion \<open>create\<close>, and nothing else.
\<close>

theorem afterCreate_postcondition:
  assumes "afterCreate rnd s ev = (None, s')"
    and "get_property ev ''result'' = Inr r" and "get_property r ''id'' = Inr uid"
  shows "(profilesOf s uid = [] \<longrightarrow> length (profilesOf s' uid) = 1) \<and>
         (profilesOf s uid \<noteq> [] \<and> uid \<noteq> Undefined \<longrightarrow> s' = s) \<and>
         (s' = s \<or> (\<exists>n b. s' = create s uid n b))"
proof -
  from afterCreate_with_id [OF assms(2,3), of rnd s] assms(1) obtain n b
    where s': "s' = createUserProfile s uid n b"
    by force
  have "profilesOf s uid = [] \<longrightarrow> length (profilesOf s' uid) = 1"
    by (simp add: s' createUserProfile_def checkIfUserProfileExists_eq profilesOf_create)
  moreover have "profilesOf s uid \<noteq> [] \<and> uid \<noteq> Undefined \<longrightarrow> s' = s"
    by (simp add: s' createUserProfile_existing)
  moreover have "s' = s \<or> (\<exists>n b. s' = create s uid n b)"
    using createUserProfile_cases [of s uid n b] s' by auto
  ultimately show ?thesis by blast
qed

theorem afterCreate_postcondition_witness:
  "afterCreate \<lparr>number_draw = \<lparr>mant = 1, expo = - 1\<rparr>, adjective_draw = \<lparr>mant = 1, expo = - 2\<rparr>, noun_draw = \<lparr>mant = 7, expo = - 3\<rparr>\<rparr> \<lparr>docs = [], nextDocumentId = 0\<rparr> (Obj [(''result'', Obj [(''id'', Num 42)]),
         (''params'', Obj [(''data'', Obj [(''fullName'', Str ''Ada Lovelace''),
                                           (''bio'', Str ''Mathematician'')])])]) = (None, \<lparr>docs = [\<lparr>documentId = 0, user = Num 42, fullName = Str ''Ada Lovelace'', bio = Str ''Mathematician''\<rparr>], nextDocumentId = 1\<rparr>) \<and>
   get_property (Obj [(''result'', Obj [(''id'', Num 42)]),
         (''params'', Obj [(''data'', Obj [(''fullName'', Str ''Ada Lovelace''),
                                           (''bio'', Str ''Mathematician'')])])]) ''result'' = Inr (Obj [(''id'', Num 42)]) \<and>
   get_property (Obj [(''id'', Num 42)]) ''id'' = Inr (Num 42) \<and>
   profilesOf \<lparr>docs = [], nextDocumentId = 0\<rparr> (Num 42) = [] \<and>
   length (profilesOf \<lparr>docs = [\<lparr>documentId = 0, user = Num 42, fullName = Str ''Ada Lovelace'', bio = Str ''Mathematician''\<rparr>], nextDocumentId = 1\<rparr> (Num 42)) = 1 \<and>
   (\<lparr>docs = [\<lparr>documentId = 0, user = Num 42, fullName = Str ''Ada Lovelace'', bio = Str ''Mathematician''\<rparr>], nextDocumentId = 1\<rparr> = \<lparr>docs = [], nextDocumentId = 0\<rparr> \<or>
    (\<exists>n b. \<lparr>docs = [\<lparr>documentId = 0, user = Num 42, fullName = Str ''Ada Lovelace'', bio = Str ''Mathematician''\<rparr>], nextDocumentId = 1\<rparr> = create \<lparr>docs = [], nextDocumentId = 0\<rparr> (Num 42) n b))"
proof -
  have h1: "afterCreate \<lparr>number_draw = \<lparr>mant = 1, expo = - 1\<rparr>, adjective_draw = \<lparr>mant = 1, expo = - 2\<rparr>, noun_draw = \<lparr>mant = 7, expo = - 3\<rparr>\<rparr> \<lparr>docs = [], nextDocumentId = 0\<rparr> (Obj [(''result'', Obj [(''id'', Num 42)]),
         (''params'', Obj [(''data'', Obj [(''fullName'', Str ''Ada Lovelace''),
                                           (''bio'', Str ''Mathematician'')])])]) = (None, \<lparr>docs = [\<lparr>documentId = 0, user = Num 42, fullName = Str ''Ada Lovelace'', bio = Str ''Mathematician''\<rparr>], nextDocumentId = 1\<rparr>)"
    by (simp add: afterCreate_def createUserProfile_def checkIfUserProfileExists_def findMany_def create_def js_or_def Let_def)
  have h2: "get_property (Obj [(''result'', Obj [(''id'', Num 42)]),
         (''params'', Obj [(''data'', Obj [(''fullName'', Str ''Ada Lovelace''),
                                           (''bio'', Str ''Mathematician'')])])]) ''result'' = Inr (Obj [(''id'', Num 42)])"
    by simp
  have h3: "get_property (Obj [(''id'', Num 42)]) ''id'' = Inr (Num 42)"
    by simp
  have h4: "profilesOf \<lparr>docs = [], nextDocumentId = 0\<rparr> (Num 42) = []"
    by (simp add: profilesOf_def)
  from h1 h2 h3 h4 afterCreate_postcondition [OF h1 h2 h3]
  show ?thesis by blast
qed

subsection \<open>Generated defaults\<close>

text \<open>
  C4. For a creation event whose parameters supply no display name and no biography
  (absent, or any other falsy value), whatever doubles in \<open>[0, 1)\<close> the three calls
  of \<open>Math.random()\<close> return, and with an empty lookup for the user, \<open>afterCreate\<close>
  inserts a profile whose display name is an adjective of the 8-element adjective
  list, followed by a noun of the 8-element noun list, followed by the decimal digits
  of a number between 1000 and 9999 (four digits), and whose biography is
  \<open>No bio yet\<close>. The number and the two indices are computed in double-precision
  arithmetic, as the code computes them.
\<close>

theorem afterCreate_generated_defaults:
  assumes "unit_draw (number_draw rnd)" and "unit_draw (adjective_draw rnd)"
    and "unit_draw (noun_draw rnd)"
    and "get_property ev ''result'' = Inr r" and "get_property r ''id'' = Inr uid"
    and "get_property ev ''params'' = Inr params"
    and "\<not> truthy (opt_property (opt_property params ''data'') ''fullName'')"
    and "\<not> truthy (opt_property (opt_property params ''data'') ''bio'')"
    and "checkIfUserProfileExists s uid = []"
  shows "length adjectives = 8 \<and> length nouns = 8 \<and>
         (\<exists>a\<in>set adjectives. \<exists>n\<in>set nouns. \<exists>k.
            1000 \<le> k \<and> k \<le> 9999 \<and>
            length (string_of_nat k) = 4 \<and> set (string_of_nat k) \<subseteq> set ''0123456789'' \<and>
            afterCreate rnd s ev =
              (None, create s uid (Str (a @ n @ string_of_nat k)) (Str ''No bio yet'')))"
proof -
  from generateUsername_pattern [OF assms(1-3)]
  obtain a n k where name: "a \<in> set adjectives" "n \<in> set nouns" "1000 \<le> k" "k \<le> 9999"
    "generateUsername rnd = a @ n @ string_of_nat k"
    by blast
  from name(3,4) have four: "string_of_nat k =
      [digit_char (k div 1000), digit_char (k div 100 mod 10),
       digit_char (k div 10 mod 10), digit_char (k mod 10)]"
    by (rule string_of_nat_four_digits)
  have len: "length (string_of_nat k) = 4"
    by (simp only: four) simp
  have dig: "set (string_of_nat k) \<subseteq> set ''0123456789''"
    using digit_char_digit by (simp only: four) simp
  from assms(7-9) afterCreate_with_id [OF assms(4,5), of rnd s] assms(6)
  have run: "afterCreate rnd s ev =
          (None, create s uid (Str (a @ n @ string_of_nat k)) (Str ''No bio yet''))"
    by (auto simp: js_or_def createUserProfile_absent name(5))
  have sizes: "length adjectives = 8" "length nouns = 8"
    by (simp_all add: adjectives_def nouns_def)
  from name(1-4) len dig run
  have "\<exists>a\<in>set adjectives. \<exists>n\<in>set nouns. \<exists>k.
            1000 \<le> k \<and> k \<le> 9999 \<and>
            length (string_of_nat k) = 4 \<and> set (string_of_nat k) \<subseteq> set ''0123456789'' \<and>
            afterCreate rnd s ev =
              (None, create s uid (Str (a @ n @ string_of_nat k)) (Str ''No bio yet''))"
    by blast
  with sizes show ?thesis by blast
qed

theorem afterCreate_generated_defaults_witness:
  "unit_draw (number_draw \<lparr>number_draw = \<lparr>mant = 1, expo = - 1\<rparr>, adjective_draw = \<lparr>mant = 1, expo = - 2\<rparr>, noun_draw = \<lparr>mant = 7, expo = - 3\<rparr>\<rparr>) \<and>
   unit_draw (adjective_draw \<lparr>number_draw = \<lparr>mant = 1, expo = - 1\<rparr>, adjective_draw = \<lparr>mant = 1, expo = - 2\<rparr>, noun_draw = \<lparr>mant = 7, expo = - 3\<rparr>\<rparr>) \<and>
   unit_draw (noun_draw \<lparr>number_draw = \<lparr>mant = 1, expo = - 1\<rparr>, adjective_draw = \<lparr>mant = 1, expo = - 2\<rparr>, noun_draw = \<lparr>mant = 7, expo = - 3\<rparr>\<rparr>) \<and>
   get_property (Obj [(''result'', Obj [(''id'', Num 7)]), (''params'', Obj [(''data'', Obj [])])]) ''result'' = Inr (Obj [(''id'', Num 7)]) \<and>
   get_property (Obj [(''id'', Num 7)]) ''id'' = Inr (Num 7) \<and>
   get_property (Obj [(''result'', Obj [(''id'', Num 7)]), (''params'', Obj [(''data'', Obj [])])]) ''params'' = Inr (Obj [(''data'', Obj [])]) \<and>
   \<not> truthy (opt_property (opt_property (Obj [(''data'', Obj [])]) ''data'') ''fullName'') \<and>
   \<not> truthy (opt_property (opt_property (Obj [(''data'', Obj [])]) ''data'') ''bio'') \<and>
   checkIfUserProfileExists \<lparr>docs = [], nextDocumentId = 0\<rparr> (Num 7) = [] \<and>
   length adjectives = 8 \<and> length nouns = 8 \<and>
   (\<exists>a\<in>set adjectives. \<exists>n\<in>set nouns. \<exists>k.
      1000 \<le> k \<and> k \<le> 9999 \<and>
      length (string_of_nat k) = 4 \<and> set (string_of_nat k) \<subseteq> set ''0123456789'' \<and>
      afterCreate \<lparr>number_draw = \<lparr>mant = 1, expo = - 1\<rparr>, adjective_draw = \<lparr>mant = 1, expo = - 2\<rparr>, noun_draw = \<lparr>mant = 7, expo = - 3\<rparr>\<rparr> \<lparr>docs = [], nextDocumentId = 0\<rparr> (Obj [(''result'', Obj [(''id'', Num 7)]), (''params'', Obj [(''data'', Obj [])])]) =
        (None, create \<lparr>docs = [], nextDocumentId = 0\<rparr> (Num 7) (Str (a @ n @ string_of_nat k)) (Str ''No bio yet'')))"
proof -
  have d1: "unit_draw (number_draw \<lparr>number_draw = \<lparr>mant = 1, expo = - 1\<rparr>, adjective_draw = \<lparr>mant = 1, expo = - 2\<rparr>, noun_draw = \<lparr>mant = 7, expo = - 3\<rparr>\<rparr>)"
    and d2: "unit_draw (adjective_draw \<lparr>number_draw = \<lparr>mant = 1, expo = - 1\<rparr>, adjective_draw = \<lparr>mant = 1, expo = - 2\<rparr>, noun_draw = \<lparr>mant = 7, expo = - 3\<rparr>\<rparr>)"
    and d3: "unit_draw (noun_draw \<lparr>number_draw = \<lparr>mant = 1, expo = - 1\<rparr>, adjective_draw = \<lparr>mant = 1, expo = - 2\<rparr>, noun_draw = \<lparr>mant = 7, expo = - 3\<rparr>\<rparr>)"
    by (simp_all add: unit_draw_def)
  have h1: "get_property (Obj [(''result'', Obj [(''id'', Num 7)]), (''params'', Obj [(''data'', Obj [])])]) ''result'' = Inr (Obj [(''id'', Num 7)])"
    by simp
  have h2: "get_property (Obj [(''id'', Num 7)]) ''id'' = Inr (Num 7)"
    by simp
  have h3: "get_property (Obj [(''result'', Obj [(''id'', Num 7)]), (''params'', Obj [(''data'', Obj [])])]) ''params'' = Inr (Obj [(''data'', Obj [])])"
    by simp
  have h4: "\<not> truthy (opt_property (opt_property (Obj [(''data'', Obj [])]) ''data'') ''fullName'')"
    by simp
  have h5: "\<not> truthy (opt_property (opt_property (Obj [(''data'', Obj [])]) ''data'') ''bio'')"
    by simp
  have h6: "checkIfUserProfileExists \<lparr>docs = [], nextDocumentId = 0\<rparr> (Num 7) = []"
    by (simp add: checkIfUserProfileExists_def findMany_def)
  from d1 d2 d3 h1 h2 h3 h4 h5 h6
    afterCreate_generated_defaults [OF d1 d2 d3 h1 h2 h3 h4 h5 h6]
  show ?thesis by blast
qed

subsection \<open>Supplied values\<close>

text \<open>
  C5. For a creation event whose parameters supply a non-empty display name and a
  non-empty biography, when no profile refers to the user yet, \<open>afterCreate\<close> appends
  one profile that carries exactly these two strings and the back-reference
  \<open>result.id\<close>.
\<close>

theorem afterCreate_supplied_values:
  assumes "get_property ev ''result'' = Inr r" and "get_property r ''id'' = Inr uid"
    and "get_property ev ''params'' = Inr params"
    and "opt_property (opt_property params ''data'') ''fullName'' = Str name" and "name \<noteq> []"
    and "opt_property (opt_property params ''data'') ''bio'' = Str text" and "text \<noteq> []"
    and "profilesOf s uid = []"
  shows "afterCreate rnd s ev =
           (None, s\<lparr>docs := docs s @ [\<lparr>documentId = nextDocumentId s, user = uid,
                                        fullName = Str name, bio = Str text\<rparr>],
                    nextDocumentId := Suc (nextDocumentId s)\<rparr>)"
proof -
  from assms(8) have "checkIfUserProfileExists s uid = []"
    by (simp add: checkIfUserProfileExists_eq)
  with afterCreate_with_id [OF assms(1,2), of rnd s] assms(3-7)
  show ?thesis
    by (auto simp: js_or_def createUserProfile_absent create_def)
qed

theorem afterCreate_supplied_values_witness:
  "get_property (Obj [(''result'', Obj [(''id'', Num 42)]),
         (''params'', Obj [(''data'', Obj [(''fullName'', Str ''Ada Lovelace''),
                                           (''bio'', Str ''Mathematician'')])])]) ''result'' = Inr (Obj [(''id'', Num 42)]) \<and>
   get_property (Obj [(''id'', Num 42)]) ''id'' = Inr (Num 42) \<and>
   get_property (Obj [(''result'', Obj [(''id'', Num 42)]),
         (''params'', Obj [(''data'', Obj [(''fullName'', Str ''Ada Lovelace''),
                                           (''bio'', Str ''Mathematician'')])])]) ''params'' = Inr (Obj [(''data'', Obj [(''fullName'', Str ''Ada Lovelace''), (''bio'', Str ''Mathematician'')])]) \<and>
   opt_property (opt_property (Obj [(''data'', Obj [(''fullName'', Str ''Ada Lovelace''), (''bio'', Str ''Mathematician'')])]) ''data'') ''fullName'' = Str ''Ada Lovelace'' \<and>
   ''Ada Lovelace'' \<noteq> [] \<and>
   opt_property (opt_property (Obj [(''data'', Obj [(''fullName'', Str ''Ada Lovelace''), (''bio'', Str ''Mathematician'')])]) ''data'') ''bio'' = Str ''Mathematician'' \<and>
   ''Mathematician'' \<noteq> [] \<and>
   profilesOf \<lparr>docs = [], nextDocumentId = 0\<rparr> (Num 42) = [] \<and>
   afterCreate \<lparr>number_draw = \<lparr>mant = 1, expo = - 1\<rparr>, adjective_draw = \<lparr>mant = 1, expo = - 2\<rparr>, noun_draw = \<lparr>mant = 7, expo = - 3\<rparr>\<rparr> \<lparr>docs = [], nextDocumentId = 0\<rparr> (Obj [(''result'', Obj [(''id'', Num 42)]),
         (''params'', Obj [(''data'', Obj [(''fullName'', Str ''Ada Lovelace''),
                                           (''bio'', Str ''Mathematician'')])])]) = (None, \<lparr>docs = [\<lparr>documentId = 0, user = Num 42, fullName = Str ''Ada Lovelace'', bio = Str ''Mathematician''\<rparr>], nextDocumentId = 1\<rparr>)"
proof -
  have h1: "get_property (Obj [(''result'', Obj [(''id'', Num 42)]),
         (''params'', Obj [(''data'', Obj [(''fullName'', Str ''Ada Lovelace''),
                                           (''bio'', Str ''Mathematician'')])])]) ''result'' = Inr (Obj [(''id'', Num 42)])"
    by simp
  have h2: "get_property (Obj [(''id'', Num 42)]) ''id'' = Inr (Num 42)"
    by simp
  have h3: "get_property (Obj [(''result'', Obj [(''id'', Num 42)]),
         (''params'', Obj [(''data'', Obj [(''fullName'', Str ''Ada Lovelace''),
                                           (''bio'', Str ''Mathematician'')])])]) ''params'' = Inr (Obj [(''data'', Obj [(''fullName'', Str ''Ada Lovelace''), (''bio'', Str ''Mathematician'')])])"
    by simp
  have h4: "opt_property (opt_property (Obj [(''data'', Obj [(''fullName'', Str ''Ada Lovelace''), (''bio'', Str ''Mathematician'')])]) ''data'') ''fullName'' = Str ''Ada Lovelace''"
    by simp
  have h5: "''Ada Lovelace'' \<noteq> []"
    by simp
  have h6: "opt_property (opt_property (Obj [(''data'', Obj [(''fullName'', Str ''Ada Lovelace''), (''bio'', Str ''Mathematician'')])]) ''data'') ''bio'' = Str ''Mathematician''"
    by simp
  have h7: "''Mathematician'' \<noteq> []"
    by simp
  have h8: "profilesOf \<lparr>docs = [], nextDocumentId = 0\<rparr> (Num 42) = []"
    by (simp add: profilesOf_def)
  from afterCreate_supplied_values [OF h1 h2 h3 h4 h5 h6 h7 h8, of "\<lparr>number_draw = \<lparr>mant = 1, expo = - 1\<rparr>, adjective_draw = \<lparr>mant = 1, expo = - 2\<rparr>, noun_draw = \<lparr>mant = 7, expo = - 3\<rparr>\<rparr>"]
  have "afterCreate \<lparr>number_draw = \<lparr>mant = 1, expo = - 1\<rparr>, adjective_draw = \<lparr>mant = 1, expo = - 2\<rparr>, noun_draw = \<lparr>mant = 7, expo = - 3\<rparr>\<rparr> \<lparr>docs = [], nextDocumentId = 0\<rparr> (Obj [(''result'', Obj [(''id'', Num 42)]),
         (''params'', Obj [(''data'', Obj [(''fullName'', Str ''Ada Lovelace''),
                                           (''bio'', Str ''Mathematician'')])])]) = (None, \<lparr>docs = [\<lparr>documentId = 0, user = Num 42, fullName = Str ''Ada Lovelace'', bio = Str ''Mathematician''\<rparr>], nextDocumentId = 1\<rparr>)"
    by simp
  with h1 h2 h3 h4 h5 h6 h7 h8 show ?thesis by blast
qed

subsection \<open>Postcondition of beforeDelete\<close>

text \<open>
  C6. For a deletion event that carries a user identifier \<open>uid\<close> in
  \<open>params.where.id\<close>, when at most one profile refers to \<open>uid\<close>, \<open>beforeDelete\<close>
  completes without an error and no profile refers to \<open>uid\<close> afterwards.
\<close>

theorem beforeDelete_postcondition:
  assumes "get_property ev ''params'' = Inr params"
    and "opt_property (opt_property params ''where'') ''id'' = uid"
    and "uid \<noteq> Undefined"
    and "length (profilesOf s uid) \<le> 1"
  shows "fst (beforeDelete s ev) = None \<and> profilesOf (snd (beforeDelete s ev)) uid = []"
proof -
  have "profilesOf (deleteUserProfile s uid) uid = []"
  proof (cases "profilesOf s uid")
    case Nil
    with assms(3) show ?thesis
      by (simp add: deleteUserProfile_def checkIfUserProfileExists_eq)
  next
    case (Cons p ps)
    with assms(4) have "profilesOf s uid = [p]" by simp
    with assms(3) show ?thesis
      by (simp add: deleteUserProfile_def checkIfUserProfileExists_eq profilesOf_delete_document)
  qed
  with beforeDelete_with_params [OF assms(1), of s] assms(2) show ?thesis by simp
qed

theorem beforeDelete_postcondition_witness:
  "get_property (Obj [(''params'', Obj [(''where'', Obj [(''id'', Num 42)])])]) ''params'' = Inr (Obj [(''where'', Obj [(''id'', Num 42)])]) \<and>
   opt_property (opt_property (Obj [(''where'', Obj [(''id'', Num 42)])]) ''where'') ''id'' = Num 42 \<and>
   Num 42 \<noteq> Undefined \<and>
   length (profilesOf \<lparr>docs = [\<lparr>documentId = 0, user = Num 42, fullName = Str ''Ada Lovelace'', bio = Str ''Mathematician''\<rparr>], nextDocumentId = 1\<rparr> (Num 42)) \<le> 1 \<and>
   fst (beforeDelete \<lparr>docs = [\<lparr>documentId = 0, user = Num 42, fullName = Str ''Ada Lovelace'', bio = Str ''Mathematician''\<rparr>], nextDocumentId = 1\<rparr> (Obj [(''params'', Obj [(''where'', Obj [(''id'', Num 42)])])])) = None \<and>
   profilesOf (snd (beforeDelete \<lparr>docs = [\<lparr>documentId = 0, user = Num 42, fullName = Str ''Ada Lovelace'', bio = Str ''Mathematician''\<rparr>], nextDocumentId = 1\<rparr> (Obj [(''params'', Obj [(''where'', Obj [(''id'', Num 42)])])]))) (Num 42) = []"
proof -
  have h1: "get_property (Obj [(''params'', Obj [(''where'', Obj [(''id'', Num 42)])])]) ''params'' = Inr (Obj [(''where'', Obj [(''id'', Num 42)])])"
    by simp
  have h2: "opt_property (opt_property (Obj [(''where'', Obj [(''id'', Num 42)])]) ''where'') ''id'' = Num 42"
    by simp
  have h3: "Num 42 \<noteq> Undefined"
    by simp
  have h4: "length (profilesOf \<lparr>docs = [\<lparr>documentId = 0, user = Num 42, fullName = Str ''Ada Lovelace'', bio = Str ''Mathematician''\<rparr>], nextDocumentId = 1\<rparr> (Num 42)) \<le> 1"
    by (simp add: profilesOf_def)
  from h1 h2 h3 h4 beforeDelete_postcondition [OF h1 h2 h3 h4]
  show ?thesis by blast
qed

subsection \<open>Deletion without an identifier\<close>

text \<open>
  C7. For a deletion event whose \<open>params?.where?.id\<close> is \<open>undefined\<close>,
  \<open>beforeDelete\<close> calls \<open>deleteUserProfile\<close> with \<open>undefined\<close>, the lookup returns
  the empty list, and the handler completes without an error and leaves the store as
  it is. That the lookup is empty is the behaviour of \<open>findMany\<close> as the
  specification describes it.
\<close>

theorem beforeDelete_missing_identifier:
  assumes "get_property ev ''params'' = Inr params"
    and "opt_property (opt_property params ''where'') ''id'' = Undefined"
  shows "beforeDelete s ev = (None, deleteUserProfile s Undefined) \<and>
         checkIfUserProfileExists s Undefined = [] \<and>
         deleteUserProfile s Undefined = s"
  using beforeDelete_with_params [OF assms(1), of s] assms(2)
  by (simp add: deleteUserProfile_def checkIfUserProfileExists_eq)

theorem beforeDelete_missing_identifier_witness:
  "get_property (Obj [(''params'', Obj [(''where'', Obj [])])]) ''params'' = Inr (Obj [(''where'', Obj [])]) \<and>
   opt_property (opt_property (Obj [(''where'', Obj [])]) ''where'') ''id'' = Undefined \<and>
   beforeDelete \<lparr>docs = [\<lparr>documentId = 0, user = Num 42, fullName = Str ''Ada Lovelace'', bio = Str ''Mathematician''\<rparr>], nextDocumentId = 1\<rparr> (Obj [(''params'', Obj [(''where'', Obj [])])]) = (None, deleteUserProfile \<lparr>docs = [\<lparr>documentId = 0, user = Num 42, fullName = Str ''Ada Lovelace'', bio = Str ''Mathematician''\<rparr>], nextDocumentId = 1\<rparr> Undefined) \<and>
   checkIfUserProfileExists \<lparr>docs = [\<lparr>documentId = 0, user = Num 42, fullName = Str ''Ada Lovelace'', bio = Str ''Mathematician''\<rparr>], nextDocumentId = 1\<rparr> Undefined = [] \<and>
   deleteUserProfile \<lparr>docs = [\<lparr>documentId = 0, user = Num 42, fullName = Str ''Ada Lovelace'', bio = Str ''Mathematician''\<rparr>], nextDocumentId = 1\<rparr> Undefined = \<lparr>docs = [\<lparr>documentId = 0, user = Num 42, fullName = Str ''Ada Lovelace'', bio = Str ''Mathematician''\<rparr>], nextDocumentId = 1\<rparr>"
proof -
  have h1: "get_property (Obj [(''params'', Obj [(''where'', Obj [])])]) ''params'' = Inr (Obj [(''where'', Obj [])])"
    by simp
  have h2: "opt_property (opt_property (Obj [(''where'', Obj [])]) ''where'') ''id'' = Undefined"
    by simp
  from h1 h2 beforeDelete_missing_identifier [OF h1 h2]
  show ?thesis by blast
qed

subsection \<open>Deletion with no profile\<close>

text \<open>
  C8. For a deletion event such that no profile refers to the value of
  \<open>params?.where?.id\<close>, \<open>beforeDelete\<close> completes without an error and the whole
  store is unchanged.
\<close>

theorem beforeDelete_no_profile:
  assumes "get_property ev ''params'' = Inr params"
    and "profilesOf s (opt_property (opt_property params ''where'') ''id'') = []"
  shows "beforeDelete s ev = (None, s)"
  using beforeDelete_with_params [OF assms(1), of s] assms(2)
  by (simp add: deleteUserProfile_def checkIfUserProfileExists_eq)

theorem beforeDelete_no_profile_witness:
  "get_property (Obj [(''params'', Obj [(''where'', Obj [(''id'', Num 99)])])]) ''params'' = Inr (Obj [(''where'', Obj [(''id'', Num 99)])]) \<and>
   profilesOf \<lparr>docs = [\<lparr>documentId = 0, user = Num 42, fullName = Str ''Ada Lovelace'', bio = Str ''Mathematician''\<rparr>], nextDocumentId = 1\<rparr> (opt_property (opt_property (Obj [(''where'', Obj [(''id'', Num 99)])]) ''where'') ''id'') = [] \<and>
   beforeDelete \<lparr>docs = [\<lparr>documentId = 0, user = Num 42, fullName = Str ''Ada Lovelace'', bio = Str ''Mathematician''\<rparr>], nextDocumentId = 1\<rparr> (Obj [(''params'', Obj [(''where'', Obj [(''id'', Num 99)])])]) = (None, \<lparr>docs = [\<lparr>documentId = 0, user = Num 42, fullName = Str ''Ada Lovelace'', bio = Str ''Mathematician''\<rparr>], nextDocumentId = 1\<rparr>)"
proof -
  have h1: "get_property (Obj [(''params'', Obj [(''where'', Obj [(''id'', Num 99)])])]) ''params'' = Inr (Obj [(''where'', Obj [(''id'', Num 99)])])"
    by simp
  have h2: "profilesOf \<lparr>docs = [\<lparr>documentId = 0, user = Num 42, fullName = Str ''Ada Lovelace'', bio = Str ''Mathematician''\<rparr>], nextDocumentId = 1\<rparr> (opt_property (opt_property (Obj [(''where'', Obj [(''id'', Num 99)])]) ''where'') ''id'') = []"
    by (simp add: profilesOf_def)
  from h1 h2 beforeDelete_no_profile [OF h1 h2]
  show ?thesis by blast
qed

subsection \<open>Deletion with several profiles\<close>

text \<open>
  C9. When the lookup for the target identifier returns two or more profiles,
  \<open>beforeDelete\<close> removes the first one of the result sequence and nothing else:
  the collection afterwards is the old one without that one document, and the lookup
  afterwards returns the rest of the old result. Document identifiers are keys of the
  store (\<open>wf_store\<close>), so deleting by identifier removes one document.
\<close>

theorem beforeDelete_first_of_many:
  assumes "get_property ev ''params'' = Inr params"
    and "opt_property (opt_property params ''where'') ''id'' = uid"
    and "checkIfUserProfileExists s uid = p # q # rest"
    and "wf_store s"
  shows "beforeDelete s ev = (None, s\<lparr>docs := remove1 p (docs s)\<rparr>) \<and>
         checkIfUserProfileExists (s\<lparr>docs := remove1 p (docs s)\<rparr>) uid = q # rest"
proof -
  from assms(3) have uid: "uid \<noteq> Undefined" and found: "profilesOf s uid = p # q # rest"
    by (auto simp: checkIfUserProfileExists_eq split: if_splits)
  from found have "p \<in> set (profilesOf s uid)" by simp
  then have "p \<in> set (docs s)" by (simp add: profilesOf_def)
  with assms(4) have "filter (\<lambda>q. documentId q \<noteq> documentId p) (docs s) = remove1 p (docs s)"
    by (simp add: wf_store_def filter_other_documentId)
  with assms(3) have del: "deleteUserProfile s uid = s\<lparr>docs := remove1 p (docs s)\<rparr>"
    by (simp add: deleteUserProfile_def delete_document_def)
  from found have "filter (\<lambda>p. user p = uid) (remove1 p (docs s)) = q # rest"
    unfolding profilesOf_def by (rule filter_remove1_first)
  with uid have "checkIfUserProfileExists (s\<lparr>docs := remove1 p (docs s)\<rparr>) uid = q # rest"
    by (simp add: checkIfUserProfileExists_eq profilesOf_def)
  with beforeDelete_with_params [OF assms(1), of s] assms(2) del show ?thesis by simp
qed

theorem beforeDelete_first_of_many_witness:
  "get_property (Obj [(''params'', Obj [(''where'', Obj [(''id'', Num 7)])])]) ''params'' = Inr (Obj [(''where'', Obj [(''id'', Num 7)])]) \<and>
   opt_property (opt_property (Obj [(''where'', Obj [(''id'', Num 7)])]) ''where'') ''id'' = Num 7 \<and>
   checkIfUserProfileExists
     \<lparr>docs = [\<lparr>documentId = 0, user = Num 7, fullName = Str ''A'', bio = Str ''B''\<rparr>,
             \<lparr>documentId = 2, user = Num 42, fullName = Str ''E'', bio = Str ''F''\<rparr>,
             \<lparr>documentId = 1, user = Num 7, fullName = Str ''C'', bio = Str ''D''\<rparr>],
     nextDocumentId = 3\<rparr> (Num 7) =
     \<lparr>documentId = 0, user = Num 7, fullName = Str ''A'', bio = Str ''B''\<rparr> #
     \<lparr>documentId = 1, user = Num 7, fullName = Str ''C'', bio = Str ''D''\<rparr> # [] \<and>
   wf_store
     \<lparr>docs = [\<lparr>documentId = 0, user = Num 7, fullName = Str ''A'', bio = Str ''B''\<rparr>,
             \<lparr>documentId = 2, user = Num 42, fullName = Str ''E'', bio = Str ''F''\<rparr>,
             \<lparr>documentId = 1, user = Num 7, fullName = Str ''C'', bio = Str ''D''\<rparr>],
     nextDocumentId = 3\<rparr> \<and>
   beforeDelete
     \<lparr>docs = [\<lparr>documentId = 0, user = Num 7, fullName = Str ''A'', bio = Str ''B''\<rparr>,
             \<lparr>documentId = 2, user = Num 42, fullName = Str ''E'', bio = Str ''F''\<rparr>,
             \<lparr>documentId = 1, user = Num 7, fullName = Str ''C'', bio = Str ''D''\<rparr>],
     nextDocumentId = 3\<rparr>
     (Obj [(''params'', Obj [(''where'', Obj [(''id'', Num 7)])])]) =
     (None,
      \<lparr>docs = [\<lparr>documentId = 2, user = Num 42, fullName = Str ''E'', bio = Str ''F''\<rparr>,
             \<lparr>documentId = 1, user = Num 7, fullName = Str ''C'', bio = Str ''D''\<rparr>],
     nextDocumentId = 3\<rparr>)"
proof -
  have h1: "get_property (Obj [(''params'', Obj [(''where'', Obj [(''id'', Num 7)])])]) ''params'' = Inr (Obj [(''where'', Obj [(''id'', Num 7)])])"
    by simp
  have h2: "opt_property (opt_property (Obj [(''where'', Obj [(''id'', Num 7)])]) ''where'') ''id'' = Num 7"
    by simp
  have h3: "checkIfUserProfileExists
     \<lparr>docs = [\<lparr>documentId = 0, user = Num 7, fullName = Str ''A'', bio = Str ''B''\<rparr>,
             \<lparr>documentId = 2, user = Num 42, fullName = Str ''E'', bio = Str ''F''\<rparr>,
             \<lparr>documentId = 1, user = Num 7, fullName = Str ''C'', bio = Str ''D''\<rparr>],
     nextDocumentId = 3\<rparr> (Num 7) =
     \<lparr>documentId = 0, user = Num 7, fullName = Str ''A'', bio = Str ''B''\<rparr> #
     \<lparr>documentId = 1, user = Num 7, fullName = Str ''C'', bio = Str ''D''\<rparr> # []"
    by (simp add: checkIfUserProfileExists_def findMany_def)
  have h4: "wf_store
     \<lparr>docs = [\<lparr>documentId = 0, user = Num 7, fullName = Str ''A'', bio = Str ''B''\<rparr>,
             \<lparr>documentId = 2, user = Num 42, fullName = Str ''E'', bio = Str ''F''\<rparr>,
             \<lparr>documentId = 1, user = Num 7, fullName = Str ''C'', bio = Str ''D''\<rparr>],
     nextDocumentId = 3\<rparr>"
    by (simp add: wf_store_def)
  from beforeDelete_first_of_many [OF h1 h2 h3 h4]
  have "beforeDelete
     \<lparr>docs = [\<lparr>documentId = 0, user = Num 7, fullName = Str ''A'', bio = Str ''B''\<rparr>,
             \<lparr>documentId = 2, user = Num 42, fullName = Str ''E'', bio = Str ''F''\<rparr>,
             \<lparr>documentId = 1, user = Num 7, fullName = Str ''C'', bio = Str ''D''\<rparr>],
     nextDocumentId = 3\<rparr>
     (Obj [(''params'', Obj [(''where'', Obj [(''id'', Num 7)])])]) =
     (None,
      \<lparr>docs = [\<lparr>documentId = 2, user = Num 42, fullName = Str ''E'', bio = Str ''F''\<rparr>,
             \<lparr>documentId = 1, user = Num 7, fullName = Str ''C'', bio = Str ''D''\<rparr>],
     nextDocumentId = 3\<rparr>)"
    by simp
  with h1 h2 h3 h4 show ?thesis by blast
qed

subsection \<open>Creation without a result\<close>

text \<open>
  C10. For a creation event (an object) whose \<open>result\<close> is \<open>undefined\<close> or \<open>null\<close>,
  \<open>afterCreate\<close> throws a TypeError and the store is the one it started with: the
  read of \<open>result.id\<close> comes before the call to \<open>createUserProfile\<close>. With any
  other \<open>result\<close> the handler completes without an error, whatever \<open>params\<close> is,
  so a missing \<open>params\<close> or \<open>data\<close> alone causes no error.
\<close>

theorem afterCreate_unguarded_result:
  assumes "get_property ev ''result'' = Inr r"
  shows "(r = Undefined \<or> r = Null \<longrightarrow> afterCreate rnd s ev = (Some TypeError, s)) \<and>
         (r \<noteq> Undefined \<and> r \<noteq> Null \<longrightarrow> fst (afterCreate rnd s ev) = None)"
proof -
  from assms obtain params where "get_property ev ''params'' = Inr params"
    by (cases ev) simp_all
  with assms show ?thesis
    by (cases r) (simp_all add: afterCreate_def)
qed

theorem afterCreate_unguarded_result_witness:
  "get_property (Obj [(''params'', Obj [])]) ''result'' = Inr Undefined \<and>
   afterCreate \<lparr>number_draw = \<lparr>mant = 1, expo = - 1\<rparr>, adjective_draw = \<lparr>mant = 1, expo = - 2\<rparr>, noun_draw = \<lparr>mant = 7, expo = - 3\<rparr>\<rparr> \<lparr>docs = [\<lparr>documentId = 0, user = Num 42, fullName = Str ''Ada Lovelace'', bio = Str ''Mathematician''\<rparr>], nextDocumentId = 1\<rparr> (Obj [(''params'', Obj [])]) = (Some TypeError, \<lparr>docs = [\<lparr>documentId = 0, user = Num 42, fullName = Str ''Ada Lovelace'', bio = Str ''Mathematician''\<rparr>], nextDocumentId = 1\<rparr>) \<and>
   get_property (Obj [(''result'', Obj [(''id'', Num 7)])]) ''result'' = Inr (Obj [(''id'', Num 7)]) \<and>
   fst (afterCreate \<lparr>number_draw = \<lparr>mant = 1, expo = - 1\<rparr>, adjective_draw = \<lparr>mant = 1, expo = - 2\<rparr>, noun_draw = \<lparr>mant = 7, expo = - 3\<rparr>\<rparr> \<lparr>docs = [\<lparr>documentId = 0, user = Num 42, fullName = Str ''Ada Lovelace'', bio = Str ''Mathematician''\<rparr>], nextDocumentId = 1\<rparr> (Obj [(''result'', Obj [(''id'', Num 7)])])) = None"
proof -
  have h1: "get_property (Obj [(''params'', Obj [])]) ''result'' = Inr Undefined"
    by simp
  have h2: "get_property (Obj [(''result'', Obj [(''id'', Num 7)])]) ''result'' = Inr (Obj [(''id'', Num 7)])"
    by simp
  from h1 h2 afterCreate_unguarded_result [OF h1, of "\<lparr>number_draw = \<lparr>mant = 1, expo = - 1\<rparr>, adjective_draw = \<lparr>mant = 1, expo = - 2\<rparr>, noun_draw = \<lparr>mant = 7, expo = - 3\<rparr>\<rparr>" "\<lparr>docs = [\<lparr>documentId = 0, user = Num 42, fullName = Str ''Ada Lovelace'', bio = Str ''Mathematician''\<rparr>], nextDocumentId = 1\<rparr>"]
    afterCreate_unguarded_result [OF h2, of "\<lparr>number_draw = \<lparr>mant = 1, expo = - 1\<rparr>, adjective_draw = \<lparr>mant = 1, expo = - 2\<rparr>, noun_draw = \<lparr>mant = 7, expo = - 3\<rparr>\<rparr>" "\<lparr>docs = [\<lparr>documentId = 0, user = Num 42, fullName = Str ''Ada Lovelace'', bio = Str ''Mathematician''\<rparr>], nextDocumentId = 1\<rparr>"]
  show ?thesis by simp
qed

end
